theory Spec2Isabelle
  imports Main "HOL-Library.Sublist"
begin

section \<open>Entity model (shared/schema.ts)\<close>

text \<open>
  Ids and foreign-key columns are integers, timestamps are integers (milliseconds), an
  optional or nullable text column is a \<open>string option\<close> (JavaScript's \<open>undefined\<close>
  and \<open>null\<close> are both falsy and both \<open>None\<close> here). Strings are character lists.
\<close>

record user =
  user_id :: int
  user_username :: string
  user_password :: string
  user_displayName :: string
  user_role :: "string option"
  user_avatarUrl :: "string option"
  user_createdAt :: int

record insertUser =
  insertUser_username :: string
  insertUser_password :: string
  insertUser_displayName :: string
  insertUser_role :: "string option"
  insertUser_avatarUrl :: "string option"

record project =
  project_id :: int
  project_name :: string
  project_description :: "string option"
  project_createdAt :: int
  project_updatedAt :: int
  project_ownerId :: int

record insertProject =
  insertProject_name :: string
  insertProject_description :: "string option"
  insertProject_ownerId :: int

text \<open>\<open>Partial<InsertProject>\<close>: a field is present (\<open>Some\<close>) or omitted (\<open>None\<close>).\<close>

record partialProject =
  partialProject_name :: "string option"
  partialProject_description :: "string option option"
  partialProject_ownerId :: "int option"

record "experiment" =
  experiment_id :: int
  experiment_name :: string
  experiment_description :: "string option"
  experiment_projectId :: int
  experiment_createdAt :: int
  experiment_updatedAt :: int

record insertExperiment =
  insertExperiment_name :: string
  insertExperiment_description :: "string option"
  insertExperiment_projectId :: int

record partialExperiment =
  partialExperiment_name :: "string option"
  partialExperiment_description :: "string option option"
  partialExperiment_projectId :: "int option"

record "note" =
  note_id :: int
  note_title :: string
  note_content :: "string option"
  note_experimentId :: int
  note_authorId :: int
  note_createdAt :: int
  note_updatedAt :: int

record insertNote =
  insertNote_title :: string
  insertNote_content :: "string option"
  insertNote_experimentId :: int
  insertNote_authorId :: int

record partialNote =
  partialNote_title :: "string option"
  partialNote_content :: "string option option"
  partialNote_experimentId :: "int option"
  partialNote_authorId :: "int option"

record attachment =
  attachment_id :: int
  attachment_fileName :: string
  attachment_fileSize :: int
  attachment_fileType :: string
  attachment_fileData :: string
  attachment_noteId :: int
  attachment_createdAt :: int

record insertAttachment =
  insertAttachment_fileName :: string
  insertAttachment_fileSize :: int
  insertAttachment_fileType :: string
  insertAttachment_fileData :: string
  insertAttachment_noteId :: int

record projectCollaborator =
  collaborator_id :: int
  collaborator_projectId :: int
  collaborator_userId :: int
  collaborator_role :: "string option"

record insertProjectCollaborator =
  insertCollaborator_projectId :: int
  insertCollaborator_userId :: int
  insertCollaborator_role :: "string option"

section \<open>JavaScript \<open>Map\<close>: keyed collection in insertion order\<close>

type_synonym 'v jsmap = "(int \<times> 'v) list"

definition map_get :: "'v jsmap \<Rightarrow> int \<Rightarrow> 'v option" where
  "map_get m k = map_of m k"

definition map_has :: "'v jsmap \<Rightarrow> int \<Rightarrow> bool" where
  "map_has m k = (map_of m k \<noteq> None)"

text \<open>\<open>set\<close> replaces the value of an existing key in place and appends a new key.\<close>

fun map_set :: "int \<Rightarrow> 'v \<Rightarrow> 'v jsmap \<Rightarrow> 'v jsmap" where
  "map_set k v [] = [(k, v)]"
| "map_set k v (e # m) = (if fst e = k then (k, v) # m else e # map_set k v m)"

definition map_delete :: "int \<Rightarrow> 'v jsmap \<Rightarrow> 'v jsmap" where
  "map_delete k m = filter (\<lambda>e. fst e \<noteq> k) m"

definition map_values :: "'v jsmap \<Rightarrow> 'v list" where
  "map_values m = map snd m"

text \<open>\<open>Array.prototype.find\<close>: the first element that satisfies the predicate.\<close>

fun array_find :: "('a \<Rightarrow> bool) \<Rightarrow> 'a list \<Rightarrow> 'a option" where
  "array_find P [] = None"
| "array_find P (x # xs) = (if P x then Some x else array_find P xs)"

text \<open>
  \<open>[...new Set(xs)]\<close>: the elements of \<open>xs\<close> in order of first occurrence. A Set of
  objects compares by identity. The records of one map are distinct objects, one per key,
  and in a store that satisfies the invariants below each carries its key as its id, so two
  of them are the same object exactly when they are equal as values.
\<close>

definition set_insert :: "'a \<Rightarrow> 'a list \<Rightarrow> 'a list" where
  "set_insert x acc = (if x \<in> set acc then acc else acc @ [x])"

definition new_Set :: "'a list \<Rightarrow> 'a list" where
  "new_Set xs = fold set_insert xs []"

section \<open>Strings: \<open>toLowerCase\<close>, \<open>includes\<close>, \<open>trim\<close>\<close>

text \<open>
  Characters outside ASCII are left unchanged by \<open>toLowerCase\<close> and are not white space
  for \<open>trim\<close>; the texts used below are ASCII.
\<close>

definition lower_char :: "char \<Rightarrow> char" where
  "lower_char c =
     (let n = (of_char c :: nat) in if 65 \<le> n \<and> n \<le> 90 then char_of (n + 32) else c)"

definition toLowerCase :: "string \<Rightarrow> string" where
  "toLowerCase s = map lower_char s"

fun startsWith :: "string \<Rightarrow> string \<Rightarrow> bool" where
  "startsWith s [] = True"
| "startsWith [] (q # qs) = False"
| "startsWith (c # cs) (q # qs) = (c = q \<and> startsWith cs qs)"

fun str_includes :: "string \<Rightarrow> string \<Rightarrow> bool" where
  "str_includes [] q = (q = [])"
| "str_includes (c # cs) q = (startsWith (c # cs) q \<or> str_includes cs q)"



section \<open>In-memory backend (class MemStorage)\<close>

record memStorage =
  users :: "user jsmap"
  projects :: "project jsmap"
  experiments :: "experiment jsmap"
  "notes" :: "note jsmap"
  attachments :: "attachment jsmap"
  projectCollaborators :: "projectCollaborator jsmap"
  userId :: int
  projectId :: int
  experimentId :: int
  noteId :: int
  attachmentId :: int
  collaboratorId :: int

definition mem_createUser :: "int \<Rightarrow> insertUser \<Rightarrow> memStorage \<Rightarrow> user \<times> memStorage" where
  "mem_createUser now insertUser s =
     (let i = userId s;
          user = \<lparr>user_id = i, user_username = insertUser_username insertUser,
                  user_password = insertUser_password insertUser,
                  user_displayName = insertUser_displayName insertUser,
                  user_role = insertUser_role insertUser,
                  user_avatarUrl = insertUser_avatarUrl insertUser,
                  user_createdAt = now\<rparr>
      in (user, s\<lparr>userId := i + 1, users := map_set i user (users s)\<rparr>))"

text \<open>The constructor: empty maps, counters at 1, then the default user.\<close>

definition mem_new :: "int \<Rightarrow> memStorage" where
  "mem_new now =
     snd (mem_createUser now
       \<lparr>insertUser_username = ''sarah.chen'', insertUser_password = ''password123'',
        insertUser_displayName = ''Dr. Sarah Chen'',
        insertUser_role = Some ''Principal Investigator'', insertUser_avatarUrl = None\<rparr>
       \<lparr>users = [], projects = [], experiments = [], notes = [], attachments = [],
        projectCollaborators = [], userId = 1, projectId = 1, experimentId = 1,
        noteId = 1, attachmentId = 1, collaboratorId = 1\<rparr>)"

subsection \<open>Projects\<close>

definition mem_getProject :: "int \<Rightarrow> memStorage \<Rightarrow> project option" where
  "mem_getProject i s = map_get (projects s) i"

definition mem_listProjectsByUser :: "int \<Rightarrow> memStorage \<Rightarrow> project list" where
  "mem_listProjectsByUser uid s =
     (let userProjects = filter (\<lambda>p. project_ownerId p = uid) (map_values (projects s));
          collaboratorProjects =
            List.map_filter (\<lambda>collab. map_get (projects s) (collaborator_projectId collab))
              (filter (\<lambda>collab. collaborator_userId collab = uid)
                 (map_values (projectCollaborators s)))
      in new_Set (userProjects @ collaboratorProjects))"

definition mem_createProject ::
  "int \<Rightarrow> insertProject \<Rightarrow> memStorage \<Rightarrow> project \<times> memStorage" where
  "mem_createProject now insertProject s =
     (let i = projectId s;
          project = \<lparr>project_id = i, project_name = insertProject_name insertProject,
                     project_description = insertProject_description insertProject,
                     project_createdAt = now, project_updatedAt = now,
                     project_ownerId = insertProject_ownerId insertProject\<rparr>
      in (project, s\<lparr>projectId := i + 1, projects := map_set i project (projects s)\<rparr>))"

text \<open>The object spread \<open>{...existing, ...update, updatedAt}\<close>, field by field.\<close>

definition spread :: "'a \<Rightarrow> 'a option \<Rightarrow> 'a" where
  "spread old new = (case new of None \<Rightarrow> old | Some v \<Rightarrow> v)"

definition merge_project :: "project \<Rightarrow> partialProject \<Rightarrow> int \<Rightarrow> project" where
  "merge_project existing upd now =
     existing\<lparr>project_name := spread (project_name existing) (partialProject_name upd),
              project_description :=
                spread (project_description existing) (partialProject_description upd),
              project_ownerId := spread (project_ownerId existing) (partialProject_ownerId upd),
              project_updatedAt := now\<rparr>"

definition mem_updateProject ::
  "int \<Rightarrow> int \<Rightarrow> partialProject \<Rightarrow> memStorage \<Rightarrow> project option \<times> memStorage" where
  "mem_updateProject now i projectUpdate s =
     (case map_get (projects s) i of
        None \<Rightarrow> (None, s)
      | Some existingProject \<Rightarrow>
          (let updatedProject = merge_project existingProject projectUpdate now
           in (Some updatedProject, s\<lparr>projects := map_set i updatedProject (projects s)\<rparr>)))"

subsection \<open>Attachments\<close>


definition mem_listAttachmentsByNote :: "int \<Rightarrow> memStorage \<Rightarrow> attachment list" where
  "mem_listAttachmentsByNote nid s =
     filter (\<lambda>attachment. attachment_noteId attachment = nid) (map_values (attachments s))"

definition mem_createAttachment ::
  "int \<Rightarrow> insertAttachment \<Rightarrow> memStorage \<Rightarrow> attachment \<times> memStorage" where
  "mem_createAttachment now insertAttachment s =
     (let i = attachmentId s;
          attachment = \<lparr>attachment_id = i,
                        attachment_fileName = insertAttachment_fileName insertAttachment,
                        attachment_fileSize = insertAttachment_fileSize insertAttachment,
                        attachment_fileType = insertAttachment_fileType insertAttachment,
                        attachment_fileData = insertAttachment_fileData insertAttachment,
                        attachment_noteId = insertAttachment_noteId insertAttachment,
                        attachment_createdAt = now\<rparr>
      in (attachment,
          s\<lparr>attachmentId := i + 1, attachments := map_set i attachment (attachments s)\<rparr>))"

definition mem_deleteAttachment :: "int \<Rightarrow> memStorage \<Rightarrow> bool \<times> memStorage" where
  "mem_deleteAttachment i s =
     (map_has (attachments s) i, s\<lparr>attachments := map_delete i (attachments s)\<rparr>)"

subsection \<open>Notes\<close>


definition mem_listNotesByExperiment :: "int \<Rightarrow> memStorage \<Rightarrow> note list" where
  "mem_listNotesByExperiment eid s =
     filter (\<lambda>note. note_experimentId note = eid) (map_values (notes s))"

definition mem_createNote :: "int \<Rightarrow> insertNote \<Rightarrow> memStorage \<Rightarrow> note \<times> memStorage" where
  "mem_createNote now insertNote s =
     (let i = noteId s;
          note = \<lparr>note_id = i, note_title = insertNote_title insertNote,
                  note_content = insertNote_content insertNote,
                  note_experimentId = insertNote_experimentId insertNote,
                  note_authorId = insertNote_authorId insertNote,
                  note_createdAt = now, note_updatedAt = now\<rparr>
      in (note, s\<lparr>noteId := i + 1, notes := map_set i note (notes s)\<rparr>))"

definition merge_note :: "note \<Rightarrow> partialNote \<Rightarrow> int \<Rightarrow> note" where
  "merge_note existing upd now =
     existing\<lparr>note_title := spread (note_title existing) (partialNote_title upd),
              note_content := spread (note_content existing) (partialNote_content upd),
              note_experimentId :=
                spread (note_experimentId existing) (partialNote_experimentId upd),
              note_authorId := spread (note_authorId existing) (partialNote_authorId upd),
              note_updatedAt := now\<rparr>"

definition mem_updateNote ::
  "int \<Rightarrow> int \<Rightarrow> partialNote \<Rightarrow> memStorage \<Rightarrow> note option \<times> memStorage" where
  "mem_updateNote now i noteUpdate s =
     (case map_get (notes s) i of
        None \<Rightarrow> (None, s)
      | Some existingNote \<Rightarrow>
          (let updatedNote = merge_note existingNote noteUpdate now
           in (Some updatedNote, s\<lparr>notes := map_set i updatedNote (notes s)\<rparr>)))"

text \<open>The loops run over the array the list operation returned before the first deletion.\<close>

definition mem_deleteNote :: "int \<Rightarrow> memStorage \<Rightarrow> bool \<times> memStorage" where
  "mem_deleteNote i s =
     (let noteAttachments = mem_listAttachmentsByNote i s;
          s1 = fold (\<lambda>attachment st. snd (mem_deleteAttachment (attachment_id attachment) st))
                 noteAttachments s
      in (map_has (notes s1) i, s1\<lparr>notes := map_delete i (notes s1)\<rparr>))"

subsection \<open>Experiments\<close>


definition mem_listExperimentsByProject :: "int \<Rightarrow> memStorage \<Rightarrow> experiment list" where
  "mem_listExperimentsByProject pid s =
     filter (\<lambda>experiment. experiment_projectId experiment = pid) (map_values (experiments s))"

definition mem_createExperiment ::
  "int \<Rightarrow> insertExperiment \<Rightarrow> memStorage \<Rightarrow> experiment \<times> memStorage" where
  "mem_createExperiment now insertExperiment s =
     (let i = experimentId s;
          experiment = \<lparr>experiment_id = i,
                        experiment_name = insertExperiment_name insertExperiment,
                        experiment_description = insertExperiment_description insertExperiment,
                        experiment_projectId = insertExperiment_projectId insertExperiment,
                        experiment_createdAt = now, experiment_updatedAt = now\<rparr>
      in (experiment,
          s\<lparr>experimentId := i + 1, experiments := map_set i experiment (experiments s)\<rparr>))"

definition merge_experiment :: "experiment \<Rightarrow> partialExperiment \<Rightarrow> int \<Rightarrow> experiment" where
  "merge_experiment existing upd now =
     existing\<lparr>experiment_name := spread (experiment_name existing) (partialExperiment_name upd),
              experiment_description :=
                spread (experiment_description existing) (partialExperiment_description upd),
              experiment_projectId :=
                spread (experiment_projectId existing) (partialExperiment_projectId upd),
              experiment_updatedAt := now\<rparr>"

definition mem_updateExperiment ::
  "int \<Rightarrow> int \<Rightarrow> partialExperiment \<Rightarrow> memStorage \<Rightarrow> experiment option \<times> memStorage" where
  "mem_updateExperiment now i experimentUpdate s =
     (case map_get (experiments s) i of
        None \<Rightarrow> (None, s)
      | Some existingExperiment \<Rightarrow>
          (let updatedExperiment = merge_experiment existingExperiment experimentUpdate now
           in (Some updatedExperiment,
               s\<lparr>experiments := map_set i updatedExperiment (experiments s)\<rparr>)))"

definition mem_deleteExperiment :: "int \<Rightarrow> memStorage \<Rightarrow> bool \<times> memStorage" where
  "mem_deleteExperiment i s =
     (let experimentNotes = mem_listNotesByExperiment i s;
          s1 = fold (\<lambda>note st. snd (mem_deleteNote (note_id note) st)) experimentNotes s
      in (map_has (experiments s1) i, s1\<lparr>experiments := map_delete i (experiments s1)\<rparr>))"

subsection \<open>Project collaborators\<close>

definition mem_addCollaborator ::
  "insertProjectCollaborator \<Rightarrow> memStorage \<Rightarrow> projectCollaborator \<times> memStorage" where
  "mem_addCollaborator insertCollaborator s =
     (let i = collaboratorId s;
          collaborator = \<lparr>collaborator_id = i,
                          collaborator_projectId = insertCollaborator_projectId insertCollaborator,
                          collaborator_userId = insertCollaborator_userId insertCollaborator,
                          collaborator_role = insertCollaborator_role insertCollaborator\<rparr>
      in (collaborator,
          s\<lparr>collaboratorId := i + 1,
            projectCollaborators := map_set i collaborator (projectCollaborators s)\<rparr>))"

text \<open>The condition both backends use to pick the rows to remove.\<close>

definition same_pair :: "int \<Rightarrow> int \<Rightarrow> projectCollaborator \<Rightarrow> bool" where
  "same_pair pid uid c = (collaborator_projectId c = pid \<and> collaborator_userId c = uid)"

definition mem_removeCollaborator :: "int \<Rightarrow> int \<Rightarrow> memStorage \<Rightarrow> bool \<times> memStorage" where
  "mem_removeCollaborator pid uid s =
     (case array_find (same_pair pid uid) (map_values (projectCollaborators s)) of
        None \<Rightarrow> (False, s)
      | Some collaborator \<Rightarrow>
          (map_has (projectCollaborators s) (collaborator_id collaborator),
           s\<lparr>projectCollaborators :=
               map_delete (collaborator_id collaborator) (projectCollaborators s)\<rparr>))"

definition mem_listCollaboratorsByProject ::
  "int \<Rightarrow> memStorage \<Rightarrow> projectCollaborator list" where
  "mem_listCollaboratorsByProject pid s =
     filter (\<lambda>collaborator. collaborator_projectId collaborator = pid)
       (map_values (projectCollaborators s))"

subsection \<open>Project deletion\<close>

definition mem_deleteProject :: "int \<Rightarrow> memStorage \<Rightarrow> bool \<times> memStorage" where
  "mem_deleteProject i s =
     (let projectExperiments = mem_listExperimentsByProject i s;
          s1 = fold (\<lambda>experiment st. snd (mem_deleteExperiment (experiment_id experiment) st))
                 projectExperiments s;
          collaborators = mem_listCollaboratorsByProject i s1;
          s2 = fold (\<lambda>collaborator st.
                       snd (mem_removeCollaborator i (collaborator_userId collaborator) st))
                 collaborators s1
      in (map_has (projects s2) i, s2\<lparr>projects := map_delete i (projects s2)\<rparr>))"

subsection \<open>Search\<close>

text \<open>
  \<open>a || (b && c)\<close> with \<open>b\<close> the optional text: an absent or empty text is falsy, so the
  second disjunct is false there.
\<close>

definition mem_text_matches :: "string \<Rightarrow> string \<Rightarrow> string option \<Rightarrow> bool" where
  "mem_text_matches lowercaseQuery title content =
     (str_includes (toLowerCase title) lowercaseQuery \<or>
      (case content of
         None \<Rightarrow> False
       | Some c \<Rightarrow> c \<noteq> [] \<and> str_includes (toLowerCase c) lowercaseQuery))"

definition mem_searchNotes :: "string \<Rightarrow> memStorage \<Rightarrow> note list" where
  "mem_searchNotes query s =
     (if query = [] then []
      else filter (\<lambda>note. mem_text_matches (toLowerCase query) (note_title note) (note_content note))
             (map_values (notes s)))"

definition mem_searchProjects :: "string \<Rightarrow> memStorage \<Rightarrow> project list" where
  "mem_searchProjects query s =
     (if query = [] then []
      else filter (\<lambda>project. mem_text_matches (toLowerCase query) (project_name project)
                               (project_description project))
             (map_values (projects s)))"

definition mem_searchExperiments :: "string \<Rightarrow> memStorage \<Rightarrow> experiment list" where
  "mem_searchExperiments query s =
     (if query = [] then []
      else filter (\<lambda>experiment. mem_text_matches (toLowerCase query) (experiment_name experiment)
                                  (experiment_description experiment))
             (map_values (experiments s)))"

section \<open>Relational backend (class DatabaseStorage)\<close>

subsection \<open>Tables and SQL\<close>

text \<open>
  A table is the list of its rows in storage order; a \<open>serial\<close> column draws its value
  from the table's sequence. The schema declares primary keys and no foreign key.
\<close>

record database =
  tbl_users :: "user list"
  tbl_projects :: "project list"
  tbl_experiments :: "experiment list"
  tbl_notes :: "note list"
  tbl_attachments :: "attachment list"
  tbl_projectCollaborators :: "projectCollaborator list"
  seq_users :: int
  seq_projects :: int
  seq_experiments :: int
  seq_notes :: int
  seq_attachments :: int
  seq_projectCollaborators :: int

datatype db_error = UniqueViolation | StorageFailure

definition db_empty :: database where
  "db_empty =
     \<lparr>tbl_users = [], tbl_projects = [], tbl_experiments = [], tbl_notes = [],
      tbl_attachments = [], tbl_projectCollaborators = [], seq_users = 1, seq_projects = 1,
      seq_experiments = 1, seq_notes = 1, seq_attachments = 1, seq_projectCollaborators = 1\<rparr>"

text \<open>\<open>const [row] = await ...; return row || undefined\<close>\<close>

definition first_row :: "'a list \<Rightarrow> 'a option" where
  "first_row rows = (case rows of [] \<Rightarrow> None | r # _ \<Rightarrow> Some r)"

definition sql_delete :: "('a \<Rightarrow> bool) \<Rightarrow> 'a list \<Rightarrow> 'a list" where
  "sql_delete cond rows = filter (\<lambda>r. \<not> cond r) rows"

definition rowCount :: "('a \<Rightarrow> bool) \<Rightarrow> 'a list \<Rightarrow> nat" where
  "rowCount cond rows = length (filter cond rows)"

definition sql_update :: "('a \<Rightarrow> bool) \<Rightarrow> ('a \<Rightarrow> 'a) \<Rightarrow> 'a list \<Rightarrow> 'a list" where
  "sql_update cond f rows = map (\<lambda>r. if cond r then f r else r) rows"

definition returning :: "('a \<Rightarrow> bool) \<Rightarrow> ('a \<Rightarrow> 'a) \<Rightarrow> 'a list \<Rightarrow> 'a list" where
  "returning cond f rows = map f (filter cond rows)"

text \<open>
  PostgreSQL's \<open>LIKE\<close>: \<open>%\<close> matches any sequence, \<open>_\<close> any one character, a backslash
  makes the next character literal, every other character matches itself, case included.
  A pattern that ends in a lone backslash is rejected by the server; \<open>%query%\<close> never does
  (its last character is \<open>%\<close>), and the model answers False there.
\<close>

fun like_match :: "string \<Rightarrow> string \<Rightarrow> bool" where
  "like_match [] [] = True"
| "like_match (c # cs) [] = False"
| "like_match txt (p # ps) =
     (if p = CHR ''%'' then
        (like_match txt ps \<or> (case txt of [] \<Rightarrow> False | _ # cs \<Rightarrow> like_match cs (p # ps)))
      else if p = CHR ''_'' then
        (case txt of [] \<Rightarrow> False | _ # cs \<Rightarrow> like_match cs ps)
      else if p = CHR 0x5C then
        (case ps of
           [] \<Rightarrow> False
         | q # qs \<Rightarrow> (case txt of [] \<Rightarrow> False | c # cs \<Rightarrow> c = q \<and> like_match cs qs))
      else (case txt of [] \<Rightarrow> False | c # cs \<Rightarrow> c = p \<and> like_match cs ps))"

text \<open>Three-valued logic: \<open>NULL LIKE p\<close> is unknown, and \<open>WHERE\<close> keeps the rows that are true.\<close>

definition sql_like :: "string option \<Rightarrow> string \<Rightarrow> bool option" where
  "sql_like col pat = (case col of None \<Rightarrow> None | Some txt \<Rightarrow> Some (like_match txt pat))"

definition sql_or :: "bool option \<Rightarrow> bool option \<Rightarrow> bool option" where
  "sql_or a b =
     (if a = Some True \<or> b = Some True then Some True
      else if a = None \<or> b = None then None
      else Some False)"

definition sql_where :: "('a \<Rightarrow> bool option) \<Rightarrow> 'a list \<Rightarrow> 'a list" where
  "sql_where cond rows = filter (\<lambda>r. cond r = Some True) rows"

subsection \<open>Users\<close>

text \<open>The users table is the one with a second declared constraint: \<open>username\<close> is unique.\<close>

definition db_createUser ::
  "int \<Rightarrow> insertUser \<Rightarrow> database \<Rightarrow> (db_error + user) \<times> database" where
  "db_createUser now insertUser d =
     (let i = seq_users d;
          user = \<lparr>user_id = i, user_username = insertUser_username insertUser,
                  user_password = insertUser_password insertUser,
                  user_displayName = insertUser_displayName insertUser,
                  user_role =
                    Some (case insertUser_role insertUser of
                            None \<Rightarrow> ''Researcher'' | Some r \<Rightarrow> r),
                  user_avatarUrl = insertUser_avatarUrl insertUser,
                  user_createdAt = now\<rparr>;
          d1 = d\<lparr>seq_users := i + 1\<rparr>
      in if i \<in> set (map user_id (tbl_users d)) \<or>
            insertUser_username insertUser \<in> set (map user_username (tbl_users d))
         then (Inl UniqueViolation, d1)
         else (Inr user, d1\<lparr>tbl_users := tbl_users d @ [user]\<rparr>))"

subsection \<open>Projects\<close>

definition db_getProject :: "int \<Rightarrow> database \<Rightarrow> project option" where
  "db_getProject i d = first_row (filter (\<lambda>p. project_id p = i) (tbl_projects d))"

definition db_listProjectsByUser :: "int \<Rightarrow> database \<Rightarrow> project list" where
  "db_listProjectsByUser uid d =
     (let ownedProjects = filter (\<lambda>p. project_ownerId p = uid) (tbl_projects d);
          collaboratedProjectIds =
            map collaborator_projectId
              (filter (\<lambda>c. collaborator_userId c = uid) (tbl_projectCollaborators d));
          collabProjects =
            (if length collaboratedProjectIds > 0
             then filter (\<lambda>p. project_id p \<in> set collaboratedProjectIds) (tbl_projects d)
             else [])
      in ownedProjects @ collabProjects)"

definition db_createProject ::
  "int \<Rightarrow> insertProject \<Rightarrow> database \<Rightarrow> (db_error + project) \<times> database" where
  "db_createProject now insertProject d =
     (let i = seq_projects d;
          project = \<lparr>project_id = i, project_name = insertProject_name insertProject,
                     project_description = insertProject_description insertProject,
                     project_createdAt = now, project_updatedAt = now,
                     project_ownerId = insertProject_ownerId insertProject\<rparr>;
          d1 = d\<lparr>seq_projects := i + 1\<rparr>
      in if i \<in> set (map project_id (tbl_projects d)) then (Inl UniqueViolation, d1)
         else (Inr project, d1\<lparr>tbl_projects := tbl_projects d @ [project]\<rparr>))"

definition db_updateProject ::
  "int \<Rightarrow> int \<Rightarrow> partialProject \<Rightarrow> database \<Rightarrow> project option \<times> database" where
  "db_updateProject now i projectUpdate d =
     (let cond = (\<lambda>p. project_id p = i);
          setter = (\<lambda>p. merge_project p projectUpdate now)
      in (first_row (returning cond setter (tbl_projects d)),
          d\<lparr>tbl_projects := sql_update cond setter (tbl_projects d)\<rparr>))"

subsection \<open>Experiments\<close>


definition db_listExperimentsByProject :: "int \<Rightarrow> database \<Rightarrow> experiment list" where
  "db_listExperimentsByProject pid d =
     filter (\<lambda>e. experiment_projectId e = pid) (tbl_experiments d)"

definition db_createExperiment ::
  "int \<Rightarrow> insertExperiment \<Rightarrow> database \<Rightarrow> (db_error + experiment) \<times> database" where
  "db_createExperiment now insertExperiment d =
     (let i = seq_experiments d;
          experiment = \<lparr>experiment_id = i,
                        experiment_name = insertExperiment_name insertExperiment,
                        experiment_description = insertExperiment_description insertExperiment,
                        experiment_projectId = insertExperiment_projectId insertExperiment,
                        experiment_createdAt = now, experiment_updatedAt = now\<rparr>;
          d1 = d\<lparr>seq_experiments := i + 1\<rparr>
      in if i \<in> set (map experiment_id (tbl_experiments d)) then (Inl UniqueViolation, d1)
         else (Inr experiment, d1\<lparr>tbl_experiments := tbl_experiments d @ [experiment]\<rparr>))"

definition db_updateExperiment ::
  "int \<Rightarrow> int \<Rightarrow> partialExperiment \<Rightarrow> database \<Rightarrow> experiment option \<times> database" where
  "db_updateExperiment now i experimentUpdate d =
     (let cond = (\<lambda>e. experiment_id e = i);
          setter = (\<lambda>e. merge_experiment e experimentUpdate now)
      in (first_row (returning cond setter (tbl_experiments d)),
          d\<lparr>tbl_experiments := sql_update cond setter (tbl_experiments d)\<rparr>))"

subsection \<open>Notes\<close>


text \<open>\<open>ORDER BY updated_at DESC\<close>; SQL leaves the order of equal keys open.\<close>

definition db_listNotesByExperiment :: "int \<Rightarrow> database \<Rightarrow> note list" where
  "db_listNotesByExperiment eid d =
     rev (sort_key note_updatedAt (filter (\<lambda>n. note_experimentId n = eid) (tbl_notes d)))"

definition db_createNote :: "int \<Rightarrow> insertNote \<Rightarrow> database \<Rightarrow> (db_error + note) \<times> database" where
  "db_createNote now insertNote d =
     (let i = seq_notes d;
          note = \<lparr>note_id = i, note_title = insertNote_title insertNote,
                  note_content = insertNote_content insertNote,
                  note_experimentId = insertNote_experimentId insertNote,
                  note_authorId = insertNote_authorId insertNote,
                  note_createdAt = now, note_updatedAt = now\<rparr>;
          d1 = d\<lparr>seq_notes := i + 1\<rparr>
      in if i \<in> set (map note_id (tbl_notes d)) then (Inl UniqueViolation, d1)
         else (Inr note, d1\<lparr>tbl_notes := tbl_notes d @ [note]\<rparr>))"

definition db_updateNote ::
  "int \<Rightarrow> int \<Rightarrow> partialNote \<Rightarrow> database \<Rightarrow> note option \<times> database" where
  "db_updateNote now i noteUpdate d =
     (let cond = (\<lambda>n. note_id n = i);
          setter = (\<lambda>n. merge_note n noteUpdate now)
      in (first_row (returning cond setter (tbl_notes d)),
          d\<lparr>tbl_notes := sql_update cond setter (tbl_notes d)\<rparr>))"

subsection \<open>Attachments\<close>


definition db_listAttachmentsByNote :: "int \<Rightarrow> database \<Rightarrow> attachment list" where
  "db_listAttachmentsByNote nid d = filter (\<lambda>a. attachment_noteId a = nid) (tbl_attachments d)"

definition db_createAttachment ::
  "int \<Rightarrow> insertAttachment \<Rightarrow> database \<Rightarrow> (db_error + attachment) \<times> database" where
  "db_createAttachment now insertAttachment d =
     (let i = seq_attachments d;
          attachment = \<lparr>attachment_id = i,
                        attachment_fileName = insertAttachment_fileName insertAttachment,
                        attachment_fileSize = insertAttachment_fileSize insertAttachment,
                        attachment_fileType = insertAttachment_fileType insertAttachment,
                        attachment_fileData = insertAttachment_fileData insertAttachment,
                        attachment_noteId = insertAttachment_noteId insertAttachment,
                        attachment_createdAt = now\<rparr>;
          d1 = d\<lparr>seq_attachments := i + 1\<rparr>
      in if i \<in> set (map attachment_id (tbl_attachments d)) then (Inl UniqueViolation, d1)
         else (Inr attachment, d1\<lparr>tbl_attachments := tbl_attachments d @ [attachment]\<rparr>))"

definition db_deleteAttachment :: "int \<Rightarrow> database \<Rightarrow> bool \<times> database" where
  "db_deleteAttachment i d =
     (let cond = (\<lambda>a. attachment_id a = i)
      in (rowCount cond (tbl_attachments d) > 0,
          d\<lparr>tbl_attachments := sql_delete cond (tbl_attachments d)\<rparr>))"

subsection \<open>Cascading deletes, statement by statement\<close>

text \<open>
  The methods as they run when every statement succeeds. The loops run over the ids the
  preceding \<open>select\<close> returned.
\<close>

definition db_deleteNote :: "int \<Rightarrow> database \<Rightarrow> bool \<times> database" where
  "db_deleteNote i d =
     (let d1 = d\<lparr>tbl_attachments := sql_delete (\<lambda>a. attachment_noteId a = i) (tbl_attachments d)\<rparr>;
          cond = (\<lambda>n. note_id n = i)
      in (rowCount cond (tbl_notes d1) > 0, d1\<lparr>tbl_notes := sql_delete cond (tbl_notes d1)\<rparr>))"

definition db_delete_attachments_of :: "int \<Rightarrow> database \<Rightarrow> database" where
  "db_delete_attachments_of nid d =
     d\<lparr>tbl_attachments := sql_delete (\<lambda>a. attachment_noteId a = nid) (tbl_attachments d)\<rparr>"

definition db_delete_notes_of :: "int \<Rightarrow> database \<Rightarrow> database" where
  "db_delete_notes_of eid d =
     d\<lparr>tbl_notes := sql_delete (\<lambda>n. note_experimentId n = eid) (tbl_notes d)\<rparr>"

definition db_deleteExperiment :: "int \<Rightarrow> database \<Rightarrow> bool \<times> database" where
  "db_deleteExperiment i d =
     (let experimentNotes = map note_id (filter (\<lambda>n. note_experimentId n = i) (tbl_notes d));
          d1 = fold db_delete_attachments_of experimentNotes d;
          d2 = db_delete_notes_of i d1;
          cond = (\<lambda>e. experiment_id e = i)
      in (rowCount cond (tbl_experiments d2) > 0,
          d2\<lparr>tbl_experiments := sql_delete cond (tbl_experiments d2)\<rparr>))"

text \<open>The body of the loop over the project's experiments.\<close>

definition db_delete_experiment_content :: "int \<Rightarrow> database \<Rightarrow> database" where
  "db_delete_experiment_content eid d =
     (let expNotes = map note_id (filter (\<lambda>n. note_experimentId n = eid) (tbl_notes d));
          d1 = fold db_delete_attachments_of expNotes d
      in db_delete_notes_of eid d1)"

definition db_deleteProject :: "int \<Rightarrow> database \<Rightarrow> bool \<times> database" where
  "db_deleteProject i d =
     (let projectExperiments =
            map experiment_id (filter (\<lambda>e. experiment_projectId e = i) (tbl_experiments d));
          d1 = fold db_delete_experiment_content projectExperiments d;
          d2 = d1\<lparr>tbl_experiments :=
                    sql_delete (\<lambda>e. experiment_projectId e = i) (tbl_experiments d1)\<rparr>;
          d3 = d2\<lparr>tbl_projectCollaborators :=
                    sql_delete (\<lambda>c. collaborator_projectId c = i) (tbl_projectCollaborators d2)\<rparr>;
          cond = (\<lambda>p. project_id p = i)
      in (rowCount cond (tbl_projects d3) > 0,
          d3\<lparr>tbl_projects := sql_delete cond (tbl_projects d3)\<rparr>))"

subsection \<open>deleteProject on a connection whose statements can fail\<close>

text \<open>
  Every \<open>await db...\<close> sends one statement. A connection is the data together with the
  number of statements that still succeed before one fails (\<open>None\<close>: none fails). The
  method opens no transaction, so a statement that succeeded has taken effect, and a
  rejected promise ends the method with the error.
\<close>

type_synonym connection = "nat option \<times> database"

definition statement ::
  "(database \<Rightarrow> 'a \<times> database) \<Rightarrow> connection \<Rightarrow> (db_error + 'a) \<times> connection" where
  "statement run c =
     (case fst c of
        None \<Rightarrow> (case run (snd c) of (r, d') \<Rightarrow> (Inr r, (None, d')))
      | Some 0 \<Rightarrow> (Inl StorageFailure, c)
      | Some (Suc k) \<Rightarrow> (case run (snd c) of (r, d') \<Rightarrow> (Inr r, (Some k, d'))))"





subsection \<open>Project collaborators\<close>

definition db_addCollaborator ::
  "insertProjectCollaborator \<Rightarrow> database \<Rightarrow> (db_error + projectCollaborator) \<times> database" where
  "db_addCollaborator insertCollaborator d =
     (let i = seq_projectCollaborators d;
          collaborator =
            \<lparr>collaborator_id = i,
             collaborator_projectId = insertCollaborator_projectId insertCollaborator,
             collaborator_userId = insertCollaborator_userId insertCollaborator,
             collaborator_role =
               Some (case insertCollaborator_role insertCollaborator of
                       None \<Rightarrow> ''Viewer'' | Some r \<Rightarrow> r)\<rparr>;
          d1 = d\<lparr>seq_projectCollaborators := i + 1\<rparr>
      in if i \<in> set (map collaborator_id (tbl_projectCollaborators d))
         then (Inl UniqueViolation, d1)
         else (Inr collaborator,
               d1\<lparr>tbl_projectCollaborators := tbl_projectCollaborators d @ [collaborator]\<rparr>))"

definition db_removeCollaborator :: "int \<Rightarrow> int \<Rightarrow> database \<Rightarrow> bool \<times> database" where
  "db_removeCollaborator pid uid d =
     (let cond = same_pair pid uid
      in (rowCount cond (tbl_projectCollaborators d) > 0,
          d\<lparr>tbl_projectCollaborators := sql_delete cond (tbl_projectCollaborators d)\<rparr>))"

definition db_listCollaboratorsByProject ::
  "int \<Rightarrow> database \<Rightarrow> projectCollaborator list" where
  "db_listCollaboratorsByProject pid d =
     filter (\<lambda>c. collaborator_projectId c = pid) (tbl_projectCollaborators d)"

subsection \<open>Search\<close>

text \<open>
  \<open>notes.content || ''\<close> is evaluated in JavaScript on the column object, which is truthy:
  the SQL compares the column itself, and a NULL content makes that comparison unknown.
\<close>

definition searchTerm :: "string \<Rightarrow> string" where
  "searchTerm query = ''%'' @ query @ ''%''"

definition db_searchNotes :: "string \<Rightarrow> database \<Rightarrow> note list" where
  "db_searchNotes query d =
     sql_where (\<lambda>n. sql_or (sql_like (Some (note_title n)) (searchTerm query))
                           (sql_like (note_content n) (searchTerm query)))
       (tbl_notes d)"

definition db_searchProjects :: "string \<Rightarrow> database \<Rightarrow> project list" where
  "db_searchProjects query d =
     sql_where (\<lambda>p. sql_or (sql_like (Some (project_name p)) (searchTerm query))
                           (sql_like (project_description p) (searchTerm query)))
       (tbl_projects d)"

definition db_searchExperiments :: "string \<Rightarrow> database \<Rightarrow> experiment list" where
  "db_searchExperiments query d =
     sql_where (\<lambda>e. sql_or (sql_like (Some (experiment_name e)) (searchTerm query))
                           (sql_like (experiment_description e) (searchTerm query)))
       (tbl_experiments d)"

section \<open>The search route (routes.ts)\<close>


section \<open>Store invariants\<close>

text \<open>
  What every reachable store satisfies: a map holds each record under its own id, keys are
  distinct, and every id in use is below the counter (the sequence) that assigns the next.
\<close>

definition wf_map :: "('v \<Rightarrow> int) \<Rightarrow> int \<Rightarrow> 'v jsmap \<Rightarrow> bool" where
  "wf_map idf next m =
     (distinct (map fst m) \<and> list_all (\<lambda>e. idf (snd e) = fst e \<and> fst e < next) m)"

definition mem_wf :: "memStorage \<Rightarrow> bool" where
  "mem_wf s =
     (wf_map user_id (userId s) (users s) \<and>
      wf_map project_id (projectId s) (projects s) \<and>
      wf_map experiment_id (experimentId s) (experiments s) \<and>
      wf_map note_id (noteId s) (notes s) \<and>
      wf_map attachment_id (attachmentId s) (attachments s) \<and>
      wf_map collaborator_id (collaboratorId s) (projectCollaborators s))"

definition wf_table :: "('v \<Rightarrow> int) \<Rightarrow> int \<Rightarrow> 'v list \<Rightarrow> bool" where
  "wf_table idf next rows = (distinct (map idf rows) \<and> list_all (\<lambda>r. idf r < next) rows)"

definition db_wf :: "database \<Rightarrow> bool" where
  "db_wf d =
     (wf_table user_id (seq_users d) (tbl_users d) \<and>
      wf_table project_id (seq_projects d) (tbl_projects d) \<and>
      wf_table experiment_id (seq_experiments d) (tbl_experiments d) \<and>
      wf_table note_id (seq_notes d) (tbl_notes d) \<and>
      wf_table attachment_id (seq_attachments d) (tbl_attachments d) \<and>
      wf_table collaborator_id (seq_projectCollaborators d) (tbl_projectCollaborators d))"

section \<open>Queries without \<open>LIKE\<close> metacharacters\<close>

definition plain_char :: "char \<Rightarrow> bool" where
  "plain_char c = (c \<noteq> CHR ''%'' \<and> c \<noteq> CHR ''_'' \<and> c \<noteq> CHR 0x5C)"

definition plain_query :: "string \<Rightarrow> bool" where
  "plain_query q = list_all plain_char q"

section \<open>The merge law of partial updates, in the specification's words\<close>




section \<open>Rows are only ever removed\<close>





section \<open>Scenario data\<close>

text \<open>The concrete stores and inputs on which the properties below are exercised.\<close>

definition pair_1_2 :: insertProjectCollaborator where
  "pair_1_2 = \<lparr>insertCollaborator_projectId = 1, insertCollaborator_userId = 2,
                insertCollaborator_role = None\<rparr>"


definition protein_assay :: insertNote where
  "protein_assay = \<lparr>insertNote_title = ''Protein Assay'', insertNote_content = None,
                     insertNote_experimentId = 1, insertNote_authorId = 1\<rparr>"


definition lab_a :: insertProject where
  "lab_a = \<lparr>insertProject_name = ''Lab A'', insertProject_description = None,
             insertProject_ownerId = 1\<rparr>"

definition trial_1 :: insertExperiment where
  "trial_1 = \<lparr>insertExperiment_name = ''Trial 1'', insertExperiment_description = None,
               insertExperiment_projectId = 1\<rparr>"

definition owner_as_collaborator :: insertProjectCollaborator where
  "owner_as_collaborator = \<lparr>insertCollaborator_projectId = 1, insertCollaborator_userId = 1,
                             insertCollaborator_role = Some ''Editor''\<rparr>"




definition obs_1 :: insertNote where
  "obs_1 = \<lparr>insertNote_title = ''Obs 1'', insertNote_content = None,
             insertNote_experimentId = 1, insertNote_authorId = 1\<rparr>"

definition scan_png :: insertAttachment where
  "scan_png = \<lparr>insertAttachment_fileName = ''scan.png'', insertAttachment_fileSize = 4,
                insertAttachment_fileType = ''image/png'', insertAttachment_fileData = ''AAAA'',
                insertAttachment_noteId = 1\<rparr>"

text \<open>
  The specification's scenario: project "Lab A", its experiment "Trial 1", the note "Obs 1"
  with the attachment "scan.png", and one collaborator row for the project.
\<close>

definition lab_mem :: memStorage where
  "lab_mem =
     snd (mem_addCollaborator pair_1_2
       (snd (mem_createAttachment 0 scan_png
         (snd (mem_createNote 0 obs_1
           (snd (mem_createExperiment 0 trial_1
             (snd (mem_createProject 0 lab_a (mem_new 0))))))))))"

definition lab_db :: database where
  "lab_db =
     snd (db_addCollaborator pair_1_2
       (snd (db_createAttachment 0 scan_png
         (snd (db_createNote 0 obs_1
           (snd (db_createExperiment 0 trial_1
             (snd (db_createProject 0 lab_a db_empty)))))))))"

definition sarah_chen :: insertUser where
  "sarah_chen = \<lparr>insertUser_username = ''sarah.chen'', insertUser_password = ''secret'',
                  insertUser_displayName = ''Sarah Chen'', insertUser_role = None,
                  insertUser_avatarUrl = None\<rparr>"


section \<open>Facts about the containers\<close>


lemma map_set_fresh: "k \<notin> fst ` set m \<Longrightarrow> map_set k v m = m @ [(k, v)]"
  by (induction m) auto

lemma map_set_keys_present: "k \<in> fst ` set m \<Longrightarrow> map fst (map_set k v m) = map fst m"
  by (induction m) auto

lemma wf_map_fresh: "wf_map idf next m \<Longrightarrow> next \<notin> fst ` set m"
  by (auto simp: wf_map_def list_all_iff)

lemma wf_map_append:
  "wf_map idf next m \<Longrightarrow> idf v = next \<Longrightarrow> wf_map idf (next + 1) (m @ [(next, v)])"
  by (fastforce simp: wf_map_def list_all_iff)

lemma wf_map_filter: "wf_map idf next m \<Longrightarrow> wf_map idf next (filter P m)"
  by (auto simp: wf_map_def list_all_iff distinct_map_filter)


lemma map_get_append_fresh: "map_get (m @ [(k, v)]) k = (case map_get m k of None \<Rightarrow> Some v | Some w \<Rightarrow> Some w)"
  by (simp add: map_get_def map_add_def split: option.splits)


lemma wf_table_fresh: "wf_table idf next rows \<Longrightarrow> next \<notin> idf ` set rows"
  by (auto simp: wf_table_def list_all_iff)

lemma wf_table_append:
  "wf_table idf next rows \<Longrightarrow> idf v = next \<Longrightarrow> wf_table idf (next + 1) (rows @ [v])"
  by (fastforce simp: wf_table_def list_all_iff)



lemma array_find_append:
  "array_find P (xs @ ys) = (case array_find P xs of None \<Rightarrow> array_find P ys | Some x \<Rightarrow> Some x)"
  by (induction xs) auto


lemma array_find_None: "array_find P xs = None \<longleftrightarrow> filter P xs = []"
  by (induction xs) auto

lemma wf_map_entry: "wf_map idf next m \<Longrightarrow> v \<in> snd ` set m \<Longrightarrow> (idf v, v) \<in> set m \<and> idf v < next"
  by (auto simp: wf_map_def list_all_iff)









section \<open>Creation stores a fresh record, whatever the parent id\<close>













text \<open>
  A user has no parent. The relational backend can still refuse one: the schema declares
  \<open>username\<close> unique, so a second user with a name in use is rejected there, while the
  in-memory backend stores it.
\<close>

lemma createUser_duplicate_username:
  "fst (db_createUser 0 sarah_chen (snd (db_createUser 0 sarah_chen db_empty))) =
     Inl UniqueViolation \<and>
   length (filter (\<lambda>u. user_username u = ''sarah.chen'')
             (map_values (users (snd (mem_createUser 0 sarah_chen (mem_new 0)))))) = 2"
  by code_simp

section \<open>Collaborator rows\<close>










section \<open>Search\<close>


lemma like_match_any: "like_match str ''%'' = True"
  by (induction str) auto

lemma like_match_empty_query: "like_match str (searchTerm []) = True"
  by (induction str) (auto simp: searchTerm_def like_match_any)

lemma db_search_empty_query:
  "db_searchNotes [] d = tbl_notes d" "db_searchProjects [] d = tbl_projects d"
  "db_searchExperiments [] d = tbl_experiments d"
  by (simp_all add: db_searchNotes_def db_searchProjects_def db_searchExperiments_def
      sql_where_def sql_or_def sql_like_def like_match_empty_query)




text \<open>
  C4. The relational search compares with \<open>LIKE\<close>, which distinguishes case: the note
  titled "Protein Assay" is found by neither "assay" nor "ASSAY" there, while the in-memory
  search, which lowers both sides, finds it for both.
\<close>

theorem db_searchNotes_is_case_sensitive:
  "db_searchNotes ''assay'' (snd (db_createNote 0 protein_assay db_empty)) = [] \<and>
   db_searchNotes ''ASSAY'' (snd (db_createNote 0 protein_assay db_empty)) = [] \<and>
   db_searchNotes ''Assay'' (snd (db_createNote 0 protein_assay db_empty)) =
     tbl_notes (snd (db_createNote 0 protein_assay db_empty)) \<and>
   tbl_notes (snd (db_createNote 0 protein_assay db_empty)) =
     [\<lparr>note_id = 1, note_title = ''Protein Assay'', note_content = None, note_experimentId = 1,
       note_authorId = 1, note_createdAt = 0, note_updatedAt = 0\<rparr>] \<and>
   mem_searchNotes ''assay'' (snd (mem_createNote 0 protein_assay (mem_new 0))) =
     [fst (mem_createNote 0 protein_assay (mem_new 0))] \<and>
   mem_searchNotes ''ASSAY'' (snd (mem_createNote 0 protein_assay (mem_new 0))) =
     [fst (mem_createNote 0 protein_assay (mem_new 0))]"
  by code_simp

text \<open>
  C8. On the same rows the two backends answer differently: "lab" finds the project
  "Lab A" in memory and nothing in the relational backend (case), and "_" finds the
  experiment "Trial 1" in the relational backend (a wildcard of \<open>LIKE\<close>) and nothing in
  memory.
\<close>

theorem search_backends_disagree:
  "map_values (projects (snd (mem_createProject 0 lab_a (mem_new 0)))) =
     tbl_projects (snd (db_createProject 0 lab_a db_empty)) \<and>
   mem_searchProjects ''lab'' (snd (mem_createProject 0 lab_a (mem_new 0))) =
     tbl_projects (snd (db_createProject 0 lab_a db_empty)) \<and>
   db_searchProjects ''lab'' (snd (db_createProject 0 lab_a db_empty)) = [] \<and>
   tbl_projects (snd (db_createProject 0 lab_a db_empty)) \<noteq> [] \<and>
   map_values (experiments (snd (mem_createExperiment 0 trial_1 (mem_new 0)))) =
     tbl_experiments (snd (db_createExperiment 0 trial_1 db_empty)) \<and>
   mem_searchExperiments ''_'' (snd (mem_createExperiment 0 trial_1 (mem_new 0))) = [] \<and>
   db_searchExperiments ''_'' (snd (db_createExperiment 0 trial_1 db_empty)) =
     tbl_experiments (snd (db_createExperiment 0 trial_1 db_empty)) \<and>
   tbl_experiments (snd (db_createExperiment 0 trial_1 db_empty)) \<noteq> []"
  by code_simp

subsection \<open>Where the two searches agree\<close>

lemma like_match_plain_prefix:
  "plain_query q \<Longrightarrow> like_match str (q @ ''%'') = startsWith str q"
proof (induction q arbitrary: str)
  case Nil
  then show ?case
    using like_match_any[of str] by simp
next
  case (Cons c q)
  then have "plain_char c" "plain_query q"
    by (simp_all add: plain_query_def)
  then show ?case
    using Cons.IH by (cases str) (simp_all add: plain_char_def)
qed

lemma like_match_plain_query:
  "plain_query q \<Longrightarrow> like_match str (searchTerm q) = str_includes str q"
proof (induction str)
  case Nil
  then show ?case
    using like_match_plain_prefix[of q "[]"] by (cases q) (simp_all add: searchTerm_def)
next
  case (Cons c str)
  then show ?case
    using like_match_plain_prefix[of q "c # str"] by (simp add: searchTerm_def)
qed

text \<open>
  On a query without \<open>%\<close>, \<open>_\<close> and backslash the relational search is the
  case-sensitive substring search; so the two backends agree on non-empty queries of that
  kind when neither the query nor the stored texts contain an upper-case letter.
\<close>

lemma db_searchNotes_plain:
  assumes "plain_query q"
  shows "db_searchNotes q d =
           filter (\<lambda>n. str_includes (note_title n) q \<or>
                        (case note_content n of None \<Rightarrow> False | Some c \<Rightarrow> str_includes c q))
             (tbl_notes d)"
  unfolding db_searchNotes_def sql_where_def
  by (rule filter_cong)
    (auto simp: sql_or_def sql_like_def like_match_plain_query[OF assms] split: option.splits)

lemma str_includes_empty_text: "str_includes [] q = (q = [])"
  by simp

lemma searchNotes_backends_agree:
  assumes "plain_query q" and "q \<noteq> []" and "toLowerCase q = q"
    and "\<forall>n \<in> set (tbl_notes d). toLowerCase (note_title n) = note_title n \<and>
           (\<forall>c. note_content n = Some c \<longrightarrow> toLowerCase c = c)"
    and "map_values (notes s) = tbl_notes d"
  shows "mem_searchNotes q s = db_searchNotes q d"
  unfolding db_searchNotes_plain[OF assms(1)] mem_searchNotes_def
  using assms(2,3,4)
  by (auto simp: assms(5) mem_text_matches_def intro!: filter_cong split: option.splits)

section \<open>Projects visible to a user\<close>

lemma fold_set_insert:
  "distinct acc \<Longrightarrow>
   distinct (fold set_insert xs acc) \<and> set (fold set_insert xs acc) = set acc \<union> set xs"
  by (induction xs arbitrary: acc) (auto simp: set_insert_def)

lemma new_Set_distinct: "distinct (new_Set xs)" and set_new_Set: "set (new_Set xs) = set xs"
  using fold_set_insert[of "[]" xs] by (simp_all add: new_Set_def)

lemma set_map_filter: "set (List.map_filter f xs) = {y. \<exists>x \<in> set xs. f x = Some y}"
  by (induction xs) (auto simp: List.map_filter_def)

lemma mem_listProjectsByUser_deduplicates:
  "distinct (mem_listProjectsByUser uid s) \<and>
   set (mem_listProjectsByUser uid s) =
     {p \<in> set (map_values (projects s)). project_ownerId p = uid} \<union>
     {p. \<exists>c \<in> set (map_values (projectCollaborators s)).
           collaborator_userId c = uid \<and> mem_getProject (collaborator_projectId c) s = Some p}"
  by (auto simp: mem_listProjectsByUser_def Let_def new_Set_distinct set_new_Set set_map_filter
      mem_getProject_def)

text \<open>
  C3. The relational backend concatenates the owned and the collaborated projects without
  removing duplicates: user 1 owns project 1 and is also listed as its collaborator, and
  the project is returned twice. The in-memory backend returns it once on the same data.
\<close>

theorem db_listProjectsByUser_repeats_project:
  "db_listProjectsByUser 1
     (snd (db_addCollaborator owner_as_collaborator (snd (db_createProject 0 lab_a db_empty)))) =
     [\<lparr>project_id = 1, project_name = ''Lab A'', project_description = None,
       project_createdAt = 0, project_updatedAt = 0, project_ownerId = 1\<rparr>,
      \<lparr>project_id = 1, project_name = ''Lab A'', project_description = None,
       project_createdAt = 0, project_updatedAt = 0, project_ownerId = 1\<rparr>] \<and>
   mem_listProjectsByUser 1
     (snd (mem_addCollaborator owner_as_collaborator (snd (mem_createProject 0 lab_a (mem_new 0))))) =
     [\<lparr>project_id = 1, project_name = ''Lab A'', project_description = None,
       project_createdAt = 0, project_updatedAt = 0, project_ownerId = 1\<rparr>]"
  by code_simp

section \<open>Partial updates\<close>





lemma merge_project_id: "project_id (merge_project p u now) = project_id p"
  by (simp add: merge_project_def)




lemma merge_experiment_id: "experiment_id (merge_experiment e u now) = experiment_id e"
  by (simp add: merge_experiment_def)




lemma merge_note_id: "note_id (merge_note n u now) = note_id n"
  by (simp add: merge_note_def)






section \<open>The relational cascade in closed form\<close>

lemma fold_db_delete_attachments_of:
  "fold db_delete_attachments_of nids d =
     d\<lparr>tbl_attachments := filter (\<lambda>a. attachment_noteId a \<notin> set nids) (tbl_attachments d)\<rparr>"
proof (induction nids arbitrary: d)
  case Nil
  then show ?case by simp
next
  case (Cons n nids)
  let ?d1 = "db_delete_attachments_of n d"
  have "fold db_delete_attachments_of (n # nids) d = fold db_delete_attachments_of nids ?d1"
    by simp
  also have "\<dots> = ?d1\<lparr>tbl_attachments :=
      filter (\<lambda>a. attachment_noteId a \<notin> set nids) (tbl_attachments ?d1)\<rparr>"
    by (rule Cons.IH)
  also have "\<dots> = d\<lparr>tbl_attachments :=
      filter (\<lambda>a. attachment_noteId a \<notin> set (n # nids)) (tbl_attachments d)\<rparr>"
    by (auto simp: db_delete_attachments_of_def sql_delete_def intro: filter_cong)
  finally show ?case .
qed

lemma db_delete_experiment_content_eq:
  "db_delete_experiment_content eid d =
     d\<lparr>tbl_attachments :=
         filter (\<lambda>a. attachment_noteId a \<notin>
                       note_id ` {n \<in> set (tbl_notes d). note_experimentId n = eid})
           (tbl_attachments d),
       tbl_notes := filter (\<lambda>n. note_experimentId n \<noteq> eid) (tbl_notes d)\<rparr>"
  by (simp add: db_delete_experiment_content_def fold_db_delete_attachments_of
      db_delete_notes_of_def sql_delete_def Let_def)

lemma fold_db_delete_experiment_content:
  "fold db_delete_experiment_content eids d =
     d\<lparr>tbl_attachments :=
         filter (\<lambda>a. attachment_noteId a \<notin>
                       note_id ` {n \<in> set (tbl_notes d). note_experimentId n \<in> set eids})
           (tbl_attachments d),
       tbl_notes := filter (\<lambda>n. note_experimentId n \<notin> set eids) (tbl_notes d)\<rparr>"
proof (induction eids arbitrary: d)
  case Nil
  then show ?case by simp
next
  case (Cons e eids)
  let ?d1 = "db_delete_experiment_content e d"
  have notes1: "tbl_notes ?d1 = filter (\<lambda>n. note_experimentId n \<noteq> e) (tbl_notes d)"
    and atts1: "tbl_attachments ?d1 =
      filter (\<lambda>a. attachment_noteId a \<notin>
                note_id ` {n \<in> set (tbl_notes d). note_experimentId n = e}) (tbl_attachments d)"
    and rest1: "?d1 = d\<lparr>tbl_attachments := tbl_attachments ?d1, tbl_notes := tbl_notes ?d1\<rparr>"
    by (simp_all add: db_delete_experiment_content_eq)
  have notes_eq: "filter (\<lambda>n. note_experimentId n \<notin> set eids) (tbl_notes ?d1) =
        filter (\<lambda>n. note_experimentId n \<notin> set (e # eids)) (tbl_notes d)"
    unfolding notes1 filter_filter by (rule filter_cong) auto
  have atts_eq: "filter (\<lambda>a. attachment_noteId a \<notin>
            note_id ` {n \<in> set (tbl_notes ?d1). note_experimentId n \<in> set eids})
          (tbl_attachments ?d1) =
        filter (\<lambda>a. attachment_noteId a \<notin>
                  note_id ` {n \<in> set (tbl_notes d). note_experimentId n \<in> set (e # eids)})
          (tbl_attachments d)"
    unfolding notes1 atts1 filter_filter by (rule filter_cong) auto
  have "fold db_delete_experiment_content (e # eids) d =
          fold db_delete_experiment_content eids ?d1"
    by simp
  also have "\<dots> = ?d1\<lparr>tbl_attachments :=
         filter (\<lambda>a. attachment_noteId a \<notin>
                       note_id ` {n \<in> set (tbl_notes ?d1). note_experimentId n \<in> set eids})
           (tbl_attachments ?d1),
       tbl_notes := filter (\<lambda>n. note_experimentId n \<notin> set eids) (tbl_notes ?d1)\<rparr>"
    by (rule Cons.IH)
  also have "\<dots> = d\<lparr>tbl_attachments :=
         filter (\<lambda>a. attachment_noteId a \<notin>
                       note_id ` {n \<in> set (tbl_notes d). note_experimentId n \<in> set (e # eids)})
           (tbl_attachments d),
       tbl_notes := filter (\<lambda>n. note_experimentId n \<notin> set (e # eids)) (tbl_notes d)\<rparr>"
    unfolding atts_eq notes_eq by (subst rest1) simp
  finally show ?case .
qed

lemma db_deleteProject_eq:
  "db_deleteProject i d =
     (filter (\<lambda>p. project_id p = i) (tbl_projects d) \<noteq> [],
      d\<lparr>tbl_attachments :=
          filter (\<lambda>a. attachment_noteId a \<notin>
                     note_id ` {n \<in> set (tbl_notes d).
                       note_experimentId n \<in>
                         experiment_id ` {e \<in> set (tbl_experiments d). experiment_projectId e = i}})
            (tbl_attachments d),
        tbl_notes :=
          filter (\<lambda>n. note_experimentId n \<notin>
                     experiment_id ` {e \<in> set (tbl_experiments d). experiment_projectId e = i})
            (tbl_notes d),
        tbl_experiments := filter (\<lambda>e. experiment_projectId e \<noteq> i) (tbl_experiments d),
        tbl_projectCollaborators :=
          filter (\<lambda>c. collaborator_projectId c \<noteq> i) (tbl_projectCollaborators d),
        tbl_projects := filter (\<lambda>p. project_id p \<noteq> i) (tbl_projects d)\<rparr>)"
  by (simp add: db_deleteProject_def fold_db_delete_experiment_content sql_delete_def
      rowCount_def Let_def)

section \<open>The in-memory cascade in closed form\<close>

lemma wf_map_filter_values:
  assumes "wf_map idf next m"
  shows "filter (\<lambda>e. fst e \<notin> idf ` set (filter P (map_values m))) m =
           filter (\<lambda>e. \<not> P (snd e)) m"
proof (rule filter_cong[OF refl])
  fix e
  assume e: "e \<in> set m"
  have own: "idf (snd e) = fst e"
    using assms e by (auto simp: wf_map_def list_all_iff)
  have imp: "P (snd e)" if "v \<in> snd ` set m" "P v" "idf v = fst e" for v
  proof -
    have "(fst e, v) \<in> set m"
      using wf_map_entry[OF assms that(1)] that(3) by simp
    moreover have "(fst e, snd e) \<in> set m"
      using e by simp
    ultimately have "v = snd e"
      using assms eq_key_imp_eq_value[of m "fst e" v "snd e"] by (simp add: wf_map_def)
    then show ?thesis
      using that(2) by simp
  qed
  have "fst e \<in> idf ` set (filter P (map_values m)) \<longleftrightarrow> P (snd e)"
  proof
    assume "fst e \<in> idf ` set (filter P (map_values m))"
    then obtain v where "v \<in> snd ` set m" "P v" "idf v = fst e"
      by (force simp: map_values_def)
    then show "P (snd e)"
      by (rule imp)
  next
    assume "P (snd e)"
    then have "snd e \<in> set (filter P (map_values m))"
      using e by (simp add: map_values_def)
    then show "fst e \<in> idf ` set (filter P (map_values m))"
      using own by (metis imageI)
  qed
  then show "(fst e \<notin> idf ` set (filter P (map_values m))) = (\<not> P (snd e))"
    by simp
qed

lemma fold_mem_deleteAttachment:
  "fold (\<lambda>a st. snd (mem_deleteAttachment (attachment_id a) st)) as s =
     s\<lparr>attachments := filter (\<lambda>e. fst e \<notin> attachment_id ` set as) (attachments s)\<rparr>"
proof (induction as arbitrary: s)
  case Nil
  then show ?case by simp
next
  case (Cons a as)
  let ?f = "\<lambda>a st. snd (mem_deleteAttachment (attachment_id a) st)"
  let ?s1 = "snd (mem_deleteAttachment (attachment_id a) s)"
  have "fold ?f (a # as) s = fold ?f as ?s1"
    by simp
  also have "\<dots> = ?s1\<lparr>attachments :=
      filter (\<lambda>e. fst e \<notin> attachment_id ` set as) (attachments ?s1)\<rparr>"
    by (rule Cons.IH)
  also have "\<dots> = s\<lparr>attachments :=
      filter (\<lambda>e. fst e \<notin> attachment_id ` set (a # as)) (attachments s)\<rparr>"
    by (auto simp: mem_deleteAttachment_def map_delete_def intro: filter_cong)
  finally show ?case .
qed

lemma mem_deleteNote_eq:
  "mem_deleteNote i s =
     (map_has (notes s) i,
      s\<lparr>attachments :=
          filter (\<lambda>e. fst e \<notin> attachment_id ` set (mem_listAttachmentsByNote i s))
            (attachments s),
        notes := map_delete i (notes s)\<rparr>)"
  by (simp add: mem_deleteNote_def fold_mem_deleteAttachment Let_def)

lemma mem_deleteNote_wf_eq:
  assumes "wf_map attachment_id next (attachments s)"
  shows "mem_deleteNote i s =
     (map_has (notes s) i,
      s\<lparr>attachments := filter (\<lambda>e. attachment_noteId (snd e) \<noteq> i) (attachments s),
        notes := map_delete i (notes s)\<rparr>)"
  using wf_map_filter_values[OF assms, of "\<lambda>a. attachment_noteId a = i"]
  by (simp add: mem_deleteNote_eq mem_listAttachmentsByNote_def)

lemma fold_mem_deleteNote:
  assumes "wf_map attachment_id next (attachments s)"
  shows "fold (\<lambda>n st. snd (mem_deleteNote (note_id n) st)) ns s =
     s\<lparr>attachments :=
         filter (\<lambda>e. attachment_noteId (snd e) \<notin> note_id ` set ns) (attachments s),
       notes := filter (\<lambda>e. fst e \<notin> note_id ` set ns) (notes s)\<rparr>"
  using assms
proof (induction ns arbitrary: s)
  case Nil
  then show ?case by simp
next
  case (Cons n ns)
  let ?f = "\<lambda>n st. snd (mem_deleteNote (note_id n) st)"
  let ?s1 = "snd (mem_deleteNote (note_id n) s)"
  have s1: "?s1 = s\<lparr>attachments :=
                      filter (\<lambda>e. attachment_noteId (snd e) \<noteq> note_id n) (attachments s),
                    notes := map_delete (note_id n) (notes s)\<rparr>"
    by (simp add: mem_deleteNote_wf_eq[OF Cons.prems])
  have wf1: "wf_map attachment_id next (attachments ?s1)"
    unfolding s1 using Cons.prems by (simp add: wf_map_filter)
  have "fold ?f (n # ns) s = fold ?f ns ?s1"
    by simp
  also have "\<dots> = ?s1\<lparr>attachments :=
         filter (\<lambda>e. attachment_noteId (snd e) \<notin> note_id ` set ns) (attachments ?s1),
       notes := filter (\<lambda>e. fst e \<notin> note_id ` set ns) (notes ?s1)\<rparr>"
    by (rule Cons.IH[OF wf1])
  also have "\<dots> = s\<lparr>attachments :=
         filter (\<lambda>e. attachment_noteId (snd e) \<notin> note_id ` set (n # ns)) (attachments s),
       notes := filter (\<lambda>e. fst e \<notin> note_id ` set (n # ns)) (notes s)\<rparr>"
    unfolding s1 by (auto simp: map_delete_def intro: filter_cong)
  finally show ?case .
qed

lemma mem_deleteExperiment_wf_eq:
  assumes "wf_map attachment_id next (attachments s)" and "wf_map note_id next' (notes s)"
  shows "mem_deleteExperiment i s =
     (map_has (experiments s) i,
      s\<lparr>attachments :=
          filter (\<lambda>e. attachment_noteId (snd e) \<notin>
                     note_id ` {n \<in> set (map_values (notes s)). note_experimentId n = i})
            (attachments s),
        notes := filter (\<lambda>e. note_experimentId (snd e) \<noteq> i) (notes s),
        experiments := map_delete i (experiments s)\<rparr>)"
  using wf_map_filter_values[OF assms(2), of "\<lambda>n. note_experimentId n = i"]
  by (simp add: mem_deleteExperiment_def fold_mem_deleteNote[OF assms(1)]
      mem_listNotesByExperiment_def Let_def)


lemma fold_mem_deleteExperiment:
  assumes "wf_map attachment_id next (attachments s)" and "wf_map note_id next' (notes s)"
  shows "fold (\<lambda>x st. snd (mem_deleteExperiment (experiment_id x) st)) es s =
     s\<lparr>attachments :=
         filter (\<lambda>e. attachment_noteId (snd e) \<notin>
                    note_id ` {n \<in> set (map_values (notes s)).
                                note_experimentId n \<in> experiment_id ` set es})
           (attachments s),
       notes := filter (\<lambda>e. note_experimentId (snd e) \<notin> experiment_id ` set es) (notes s),
       experiments := filter (\<lambda>e. fst e \<notin> experiment_id ` set es) (experiments s)\<rparr>"
  using assms
proof (induction es arbitrary: s)
  case Nil
  then show ?case by simp
next
  case (Cons x es)
  let ?f = "\<lambda>x st. snd (mem_deleteExperiment (experiment_id x) st)"
  let ?s1 = "snd (mem_deleteExperiment (experiment_id x) s)"
  have atts1: "attachments ?s1 =
      filter (\<lambda>e. attachment_noteId (snd e) \<notin>
                 note_id ` {n \<in> set (map_values (notes s)). note_experimentId n = experiment_id x})
        (attachments s)"
    and notes1: "notes ?s1 = filter (\<lambda>e. note_experimentId (snd e) \<noteq> experiment_id x) (notes s)"
    and exps1: "experiments ?s1 = map_delete (experiment_id x) (experiments s)"
    and rest1: "?s1 = s\<lparr>attachments := attachments ?s1, notes := notes ?s1,
                          experiments := experiments ?s1\<rparr>"
    by (simp_all add: mem_deleteExperiment_wf_eq[OF Cons.prems])
  have wf1: "wf_map attachment_id next (attachments ?s1)" "wf_map note_id next' (notes ?s1)"
    unfolding atts1 notes1 using Cons.prems by (simp_all add: wf_map_filter)
  have notes_eq: "filter (\<lambda>e. note_experimentId (snd e) \<notin> experiment_id ` set es) (notes ?s1) =
      filter (\<lambda>e. note_experimentId (snd e) \<notin> experiment_id ` set (x # es)) (notes s)"
    unfolding notes1 filter_filter by (rule filter_cong) auto
  have exps_eq: "filter (\<lambda>e. fst e \<notin> experiment_id ` set es) (experiments ?s1) =
      filter (\<lambda>e. fst e \<notin> experiment_id ` set (x # es)) (experiments s)"
    unfolding exps1 map_delete_def filter_filter by (rule filter_cong) auto
  have atts_eq: "filter (\<lambda>e. attachment_noteId (snd e) \<notin>
                    note_id ` {n \<in> set (map_values (notes ?s1)).
                                note_experimentId n \<in> experiment_id ` set es})
           (attachments ?s1) =
      filter (\<lambda>e. attachment_noteId (snd e) \<notin>
                    note_id ` {n \<in> set (map_values (notes s)).
                                note_experimentId n \<in> experiment_id ` set (x # es)})
           (attachments s)"
    unfolding notes1 atts1 filter_filter map_values_def by (rule filter_cong) auto
  have "fold ?f (x # es) s = fold ?f es ?s1"
    by simp
  also have "\<dots> = ?s1\<lparr>attachments :=
         filter (\<lambda>e. attachment_noteId (snd e) \<notin>
                    note_id ` {n \<in> set (map_values (notes ?s1)).
                                note_experimentId n \<in> experiment_id ` set es})
           (attachments ?s1),
       notes := filter (\<lambda>e. note_experimentId (snd e) \<notin> experiment_id ` set es) (notes ?s1),
       experiments := filter (\<lambda>e. fst e \<notin> experiment_id ` set es) (experiments ?s1)\<rparr>"
    by (rule Cons.IH[OF wf1])
  also have "\<dots> = s\<lparr>attachments :=
         filter (\<lambda>e. attachment_noteId (snd e) \<notin>
                    note_id ` {n \<in> set (map_values (notes s)).
                                note_experimentId n \<in> experiment_id ` set (x # es)})
           (attachments s),
       notes := filter (\<lambda>e. note_experimentId (snd e) \<notin> experiment_id ` set (x # es)) (notes s),
       experiments := filter (\<lambda>e. fst e \<notin> experiment_id ` set (x # es)) (experiments s)\<rparr>"
    unfolding atts_eq notes_eq exps_eq by (subst rest1) simp
  finally show ?case .
qed

lemma map_delete_absent: "k \<notin> fst ` set m \<Longrightarrow> map_delete k m = m"
  by (induction m) (auto simp: map_delete_def)

text \<open>
  The loop over the collaborators of a project removes, at each step, the earliest row of
  the project: the userId it passes is that of the earliest remaining row.
\<close>

lemma fold_mem_removeCollaborator_aux:
  assumes "wf_map collaborator_id next (pre @ m)"
    and "list_all (\<lambda>e. collaborator_projectId (snd e) \<noteq> pid) pre"
  shows "fold (\<lambda>c st. snd (mem_removeCollaborator pid (collaborator_userId c) st))
           (filter (\<lambda>c. collaborator_projectId c = pid) (map_values m))
           (s\<lparr>projectCollaborators := pre @ m\<rparr>) =
         s\<lparr>projectCollaborators :=
             pre @ filter (\<lambda>e. collaborator_projectId (snd e) \<noteq> pid) m\<rparr>"
  using assms
proof (induction m arbitrary: pre)
  case Nil
  then show ?case by (simp add: map_values_def)
next
  case (Cons e m)
  show ?case
  proof (cases "collaborator_projectId (snd e) = pid")
    case False
    have "wf_map collaborator_id next ((pre @ [e]) @ m)"
      using Cons.prems(1) by simp
    moreover have "list_all (\<lambda>e. collaborator_projectId (snd e) \<noteq> pid) (pre @ [e])"
      using Cons.prems(2) False by simp
    ultimately show ?thesis
      using Cons.IH[of "pre @ [e]"] False by (simp add: map_values_def)
  next
    case True
    let ?P = "same_pair pid (collaborator_userId (snd e))"
    have none: "array_find ?P (map snd pre) = None"
      using Cons.prems(2) by (induction pre) (auto simp: same_pair_def)
    have found: "array_find ?P (map_values (pre @ e # m)) = Some (snd e)"
      using True none by (simp add: map_values_def array_find_append same_pair_def)
    have key: "collaborator_id (snd e) = fst e"
      using Cons.prems(1) by (simp add: wf_map_def)
    have fresh: "fst e \<notin> fst ` set pre" "fst e \<notin> fst ` set m"
      using Cons.prems(1) by (auto simp: wf_map_def)
    have "map_delete (fst e) pre = pre" "map_delete (fst e) m = m"
      using fresh by (simp_all add: map_delete_absent)
    then have del: "map_delete (fst e) (pre @ e # m) = pre @ m"
      by (simp add: map_delete_def)
    have step: "snd (mem_removeCollaborator pid (collaborator_userId (snd e))
                  (s\<lparr>projectCollaborators := pre @ e # m\<rparr>)) =
                s\<lparr>projectCollaborators := pre @ m\<rparr>"
      using found key del by (simp add: mem_removeCollaborator_def)
    have "wf_map collaborator_id next (pre @ m)"
      using Cons.prems(1) by (auto simp: wf_map_def)
    then show ?thesis
      using Cons.IH[of pre] Cons.prems(2) True step by (simp add: map_values_def)
  qed
qed

lemma fold_mem_removeCollaborator:
  assumes "wf_map collaborator_id next (projectCollaborators s)"
  shows "fold (\<lambda>c st. snd (mem_removeCollaborator pid (collaborator_userId c) st))
           (mem_listCollaboratorsByProject pid s) s =
         s\<lparr>projectCollaborators :=
             filter (\<lambda>e. collaborator_projectId (snd e) \<noteq> pid) (projectCollaborators s)\<rparr>"
  using fold_mem_removeCollaborator_aux[of "next" "[]" "projectCollaborators s" pid s] assms
  by (simp add: mem_listCollaboratorsByProject_def)

lemma mem_deleteProject_wf_eq:
  assumes "mem_wf s"
  shows "mem_deleteProject i s =
     (map_has (projects s) i,
      s\<lparr>attachments :=
          filter (\<lambda>e. attachment_noteId (snd e) \<notin>
                     note_id ` {n \<in> set (map_values (notes s)).
                       note_experimentId n \<in>
                         experiment_id ` set (mem_listExperimentsByProject i s)})
            (attachments s),
        notes :=
          filter (\<lambda>e. note_experimentId (snd e) \<notin>
                     experiment_id ` set (mem_listExperimentsByProject i s))
            (notes s),
        experiments := filter (\<lambda>e. experiment_projectId (snd e) \<noteq> i) (experiments s),
        projectCollaborators :=
          filter (\<lambda>e. collaborator_projectId (snd e) \<noteq> i) (projectCollaborators s),
        projects := map_delete i (projects s)\<rparr>)"
proof -
  have wa: "wf_map attachment_id (attachmentId s) (attachments s)"
    and wn: "wf_map note_id (noteId s) (notes s)"
    and we: "wf_map experiment_id (experimentId s) (experiments s)"
    and wc: "wf_map collaborator_id (collaboratorId s) (projectCollaborators s)"
    using assms by (simp_all add: mem_wf_def)
  let ?s1 = "fold (\<lambda>x st. snd (mem_deleteExperiment (experiment_id x) st))
               (mem_listExperimentsByProject i s) s"
  have exps: "filter (\<lambda>e. fst e \<notin> experiment_id ` set (mem_listExperimentsByProject i s))
                (experiments s) =
              filter (\<lambda>e. experiment_projectId (snd e) \<noteq> i) (experiments s)"
    using wf_map_filter_values[OF we, of "\<lambda>x. experiment_projectId x = i"]
    by (simp add: mem_listExperimentsByProject_def)
  have s1: "?s1 = s\<lparr>attachments :=
          filter (\<lambda>e. attachment_noteId (snd e) \<notin>
                     note_id ` {n \<in> set (map_values (notes s)).
                       note_experimentId n \<in>
                         experiment_id ` set (mem_listExperimentsByProject i s)})
            (attachments s),
        notes :=
          filter (\<lambda>e. note_experimentId (snd e) \<notin>
                     experiment_id ` set (mem_listExperimentsByProject i s))
            (notes s),
        experiments := filter (\<lambda>e. experiment_projectId (snd e) \<noteq> i) (experiments s)\<rparr>"
    unfolding fold_mem_deleteExperiment[OF wa wn] exps ..
  have wc1: "wf_map collaborator_id (collaboratorId s) (projectCollaborators ?s1)"
    unfolding s1 using wc by simp
  show ?thesis
    unfolding mem_deleteProject_def Let_def fold_mem_removeCollaborator[OF wc1]
    unfolding s1 by simp
qed

section \<open>Cascade completeness\<close>

lemma filter_values_empty:
  "(\<And>e. e \<in> set m \<Longrightarrow> Q e \<Longrightarrow> \<not> P (snd e)) \<Longrightarrow> filter P (map_values (filter Q m)) = []"
  by (auto simp: map_values_def filter_empty_conv)

lemma map_get_map_delete: "map_get (map_delete k m) k = None"
  by (auto simp: map_get_def map_delete_def map_of_eq_None_iff)

lemma db_listNotesByExperiment_empty:
  "db_listNotesByExperiment eid d = [] \<longleftrightarrow>
     filter (\<lambda>n. note_experimentId n = eid) (tbl_notes d) = []"
  by (metis db_listNotesByExperiment_def rev_is_Nil_conv set_empty set_sort)

lemma set_db_listNotesByExperiment:
  "set (db_listNotesByExperiment eid d) = {n \<in> set (tbl_notes d). note_experimentId n = eid}"
  by (simp add: db_listNotesByExperiment_def)

lemma mem_deleteProject_complete:
  assumes "mem_wf s" and "mem_getProject P s \<noteq> None"
  shows "case mem_deleteProject P s of (r, s') \<Rightarrow>
           r \<and> mem_listExperimentsByProject P s' = [] \<and>
           (\<forall>e \<in> set (mem_listExperimentsByProject P s).
              mem_listNotesByExperiment (experiment_id e) s' = [] \<and>
              (\<forall>n \<in> set (mem_listNotesByExperiment (experiment_id e) s).
                 mem_listAttachmentsByNote (note_id n) s' = [])) \<and>
           mem_listCollaboratorsByProject P s' = [] \<and> mem_getProject P s' = None"
proof -
  have r: "map_has (projects s) P"
    using assms(2) by (simp add: mem_getProject_def map_has_def map_get_def)
  have exps: "filter (\<lambda>x. experiment_projectId x = P)
      (map_values (filter (\<lambda>e. experiment_projectId (snd e) \<noteq> P) (experiments s))) = []"
    by (rule filter_values_empty) simp
  have cols: "filter (\<lambda>c. collaborator_projectId c = P)
      (map_values (filter (\<lambda>e. collaborator_projectId (snd e) \<noteq> P) (projectCollaborators s))) = []"
    by (rule filter_values_empty) simp
  have nts: "filter (\<lambda>n. note_experimentId n = experiment_id e)
      (map_values (filter (\<lambda>x. note_experimentId (snd x) \<notin>
          experiment_id ` set (mem_listExperimentsByProject P s)) (notes s))) = []"
    if "e \<in> set (mem_listExperimentsByProject P s)" for e
    using that by (intro filter_values_empty) auto
  have atts: "filter (\<lambda>a. attachment_noteId a = note_id n)
      (map_values (filter (\<lambda>x. attachment_noteId (snd x) \<notin>
          note_id ` {n \<in> set (map_values (notes s)).
             note_experimentId n \<in> experiment_id ` set (mem_listExperimentsByProject P s)})
        (attachments s))) = []"
    if "e \<in> set (mem_listExperimentsByProject P s)"
      and "n \<in> set (mem_listNotesByExperiment (experiment_id e) s)" for e n
  proof (rule filter_values_empty)
    fix x :: "int \<times> attachment"
    assume "attachment_noteId (snd x) \<notin>
          note_id ` {n \<in> set (map_values (notes s)).
             note_experimentId n \<in> experiment_id ` set (mem_listExperimentsByProject P s)}"
    moreover have "note_id n \<in> note_id ` {n \<in> set (map_values (notes s)).
             note_experimentId n \<in> experiment_id ` set (mem_listExperimentsByProject P s)}"
      using that by (auto simp: mem_listNotesByExperiment_def)
    ultimately show "attachment_noteId (snd x) \<noteq> note_id n"
      by metis
  qed
  show ?thesis
    using r exps cols nts atts
    by (simp add: mem_deleteProject_wf_eq[OF assms(1)] mem_listExperimentsByProject_def
        mem_listNotesByExperiment_def mem_listAttachmentsByNote_def
        mem_listCollaboratorsByProject_def mem_getProject_def map_get_map_delete)
qed

lemma db_deleteProject_complete:
  assumes "db_getProject P d \<noteq> None"
  shows "case db_deleteProject P d of (r, d') \<Rightarrow>
           r \<and> db_listExperimentsByProject P d' = [] \<and>
           (\<forall>e \<in> set (db_listExperimentsByProject P d).
              db_listNotesByExperiment (experiment_id e) d' = [] \<and>
              (\<forall>n \<in> set (db_listNotesByExperiment (experiment_id e) d).
                 db_listAttachmentsByNote (note_id n) d' = [])) \<and>
           db_listCollaboratorsByProject P d' = [] \<and> db_getProject P d' = None"
proof -
  have r: "filter (\<lambda>p. project_id p = P) (tbl_projects d) \<noteq> []"
    using assms by (auto simp: db_getProject_def first_row_def)
  show ?thesis
    using r
    by (auto simp: db_deleteProject_eq db_listExperimentsByProject_def
        db_listNotesByExperiment_empty set_db_listNotesByExperiment db_listAttachmentsByNote_def
        db_listCollaboratorsByProject_def db_getProject_def first_row_def filter_empty_conv)
qed


text \<open>
  C1. Deleting a project that is present leaves, in either backend, no experiment of the
  project, no note of any experiment the project had, no attachment of any note those
  experiments had, and no collaborator row of the project; the project itself is absent
  afterwards and the call returns true.
\<close>

theorem deleteProject_cascade_complete:
  "(mem_wf s \<longrightarrow> mem_getProject P s \<noteq> None \<longrightarrow>
      (case mem_deleteProject P s of (r, s') \<Rightarrow>
         r \<and> mem_listExperimentsByProject P s' = [] \<and>
         (\<forall>e \<in> set (mem_listExperimentsByProject P s).
            mem_listNotesByExperiment (experiment_id e) s' = [] \<and>
            (\<forall>n \<in> set (mem_listNotesByExperiment (experiment_id e) s).
               mem_listAttachmentsByNote (note_id n) s' = [])) \<and>
         mem_listCollaboratorsByProject P s' = [] \<and> mem_getProject P s' = None)) \<and>
   (db_getProject P d \<noteq> None \<longrightarrow>
      (case db_deleteProject P d of (r, d') \<Rightarrow>
         r \<and> db_listExperimentsByProject P d' = [] \<and>
         (\<forall>e \<in> set (db_listExperimentsByProject P d).
            db_listNotesByExperiment (experiment_id e) d' = [] \<and>
            (\<forall>n \<in> set (db_listNotesByExperiment (experiment_id e) d).
               db_listAttachmentsByNote (note_id n) d' = [])) \<and>
         db_listCollaboratorsByProject P d' = [] \<and> db_getProject P d' = None))"
  using mem_deleteProject_complete[of s P] db_deleteProject_complete[of P d] by blast

text \<open>
  On the scenario store the project has an experiment, a note, an attachment and a
  collaborator row before the deletion, and none of them after it.
\<close>

theorem deleteProject_cascade_complete_witness:
  "mem_wf lab_mem \<and> mem_getProject 1 lab_mem \<noteq> None \<and>
   mem_listExperimentsByProject 1 lab_mem \<noteq> [] \<and>
   mem_listNotesByExperiment 1 lab_mem \<noteq> [] \<and>
   mem_listAttachmentsByNote 1 lab_mem \<noteq> [] \<and>
   mem_listCollaboratorsByProject 1 lab_mem \<noteq> [] \<and>
   fst (mem_deleteProject 1 lab_mem) \<and>
   mem_listExperimentsByProject 1 (snd (mem_deleteProject 1 lab_mem)) = [] \<and>
   mem_listNotesByExperiment 1 (snd (mem_deleteProject 1 lab_mem)) = [] \<and>
   mem_listAttachmentsByNote 1 (snd (mem_deleteProject 1 lab_mem)) = [] \<and>
   mem_listCollaboratorsByProject 1 (snd (mem_deleteProject 1 lab_mem)) = [] \<and>
   mem_getProject 1 (snd (mem_deleteProject 1 lab_mem)) = None \<and>
   db_getProject 1 lab_db \<noteq> None \<and>
   db_listAttachmentsByNote 1 lab_db \<noteq> [] \<and>
   fst (db_deleteProject 1 lab_db) \<and>
   db_listExperimentsByProject 1 (snd (db_deleteProject 1 lab_db)) = [] \<and>
   db_listNotesByExperiment 1 (snd (db_deleteProject 1 lab_db)) = [] \<and>
   db_listAttachmentsByNote 1 (snd (db_deleteProject 1 lab_db)) = [] \<and>
   db_listCollaboratorsByProject 1 (snd (db_deleteProject 1 lab_db)) = [] \<and>
   db_getProject 1 (snd (db_deleteProject 1 lab_db)) = None"
proof -
  have wf: "mem_wf lab_mem"
    by code_simp
  have present: "mem_getProject 1 lab_mem \<noteq> None" "db_getProject 1 lab_db \<noteq> None"
    by code_simp+
  have before: "mem_listExperimentsByProject 1 lab_mem \<noteq> [] \<and>
      mem_listNotesByExperiment 1 lab_mem \<noteq> [] \<and> mem_listAttachmentsByNote 1 lab_mem \<noteq> [] \<and>
      mem_listCollaboratorsByProject 1 lab_mem \<noteq> [] \<and> db_listAttachmentsByNote 1 lab_db \<noteq> []"
    by code_simp
  have e: "\<lparr>experiment_id = 1, experiment_name = ''Trial 1'', experiment_description = None,
            experiment_projectId = 1, experiment_createdAt = 0, experiment_updatedAt = 0\<rparr>
           \<in> set (mem_listExperimentsByProject 1 lab_mem)"
    by code_simp
  have n: "\<lparr>note_id = 1, note_title = ''Obs 1'', note_content = None, note_experimentId = 1,
            note_authorId = 1, note_createdAt = 0, note_updatedAt = 0\<rparr>
           \<in> set (mem_listNotesByExperiment 1 lab_mem)"
    by code_simp
  have e': "\<lparr>experiment_id = 1, experiment_name = ''Trial 1'', experiment_description = None,
            experiment_projectId = 1, experiment_createdAt = 0, experiment_updatedAt = 0\<rparr>
           \<in> set (db_listExperimentsByProject 1 lab_db)"
    by code_simp
  have n': "\<lparr>note_id = 1, note_title = ''Obs 1'', note_content = None, note_experimentId = 1,
            note_authorId = 1, note_createdAt = 0, note_updatedAt = 0\<rparr>
           \<in> set (db_listNotesByExperiment 1 lab_db)"
    by code_simp
  note inst = deleteProject_cascade_complete[of lab_mem 1 lab_db]
  have m: "case mem_deleteProject 1 lab_mem of (r, s') \<Rightarrow>
         r \<and> mem_listExperimentsByProject 1 s' = [] \<and>
         (\<forall>e \<in> set (mem_listExperimentsByProject 1 lab_mem).
            mem_listNotesByExperiment (experiment_id e) s' = [] \<and>
            (\<forall>n \<in> set (mem_listNotesByExperiment (experiment_id e) lab_mem).
               mem_listAttachmentsByNote (note_id n) s' = [])) \<and>
         mem_listCollaboratorsByProject 1 s' = [] \<and> mem_getProject 1 s' = None"
    by (rule mp[OF mp[OF inst[THEN conjunct1] wf] present(1)])
  have r: "case db_deleteProject 1 lab_db of (r, d') \<Rightarrow>
         r \<and> db_listExperimentsByProject 1 d' = [] \<and>
         (\<forall>e \<in> set (db_listExperimentsByProject 1 lab_db).
            db_listNotesByExperiment (experiment_id e) d' = [] \<and>
            (\<forall>n \<in> set (db_listNotesByExperiment (experiment_id e) lab_db).
               db_listAttachmentsByNote (note_id n) d' = [])) \<and>
         db_listCollaboratorsByProject 1 d' = [] \<and> db_getProject 1 d' = None"
    by (rule mp[OF inst[THEN conjunct2] present(2)])
  have "fst (mem_deleteProject 1 lab_mem) \<and>
      mem_listExperimentsByProject 1 (snd (mem_deleteProject 1 lab_mem)) = [] \<and>
      mem_listNotesByExperiment 1 (snd (mem_deleteProject 1 lab_mem)) = [] \<and>
      mem_listAttachmentsByNote 1 (snd (mem_deleteProject 1 lab_mem)) = [] \<and>
      mem_listCollaboratorsByProject 1 (snd (mem_deleteProject 1 lab_mem)) = [] \<and>
      mem_getProject 1 (snd (mem_deleteProject 1 lab_mem)) = None"
    using m e n by (fastforce split: prod.splits)
  moreover have "fst (db_deleteProject 1 lab_db) \<and>
      db_listExperimentsByProject 1 (snd (db_deleteProject 1 lab_db)) = [] \<and>
      db_listNotesByExperiment 1 (snd (db_deleteProject 1 lab_db)) = [] \<and>
      db_listAttachmentsByNote 1 (snd (db_deleteProject 1 lab_db)) = [] \<and>
      db_listCollaboratorsByProject 1 (snd (db_deleteProject 1 lab_db)) = [] \<and>
      db_getProject 1 (snd (db_deleteProject 1 lab_db)) = None"
    using r e' n' by (fastforce split: prod.splits)
  ultimately show ?thesis
    using wf present before by simp
qed

section \<open>Deleting an id that is absent\<close>
















lemma db_deleteExperiment_eq:
  "db_deleteExperiment i d =
     (filter (\<lambda>e. experiment_id e = i) (tbl_experiments d) \<noteq> [],
      d\<lparr>tbl_attachments :=
          filter (\<lambda>a. attachment_noteId a \<notin>
                     note_id ` {n \<in> set (tbl_notes d). note_experimentId n = i})
            (tbl_attachments d),
        tbl_notes := filter (\<lambda>n. note_experimentId n \<noteq> i) (tbl_notes d),
        tbl_experiments := filter (\<lambda>e. experiment_id e \<noteq> i) (tbl_experiments d)\<rparr>)"
  by (simp add: db_deleteExperiment_def fold_db_delete_attachments_of db_delete_notes_of_def
      sql_delete_def rowCount_def Let_def)






section \<open>The relational cascade under failure\<close>



lemma statement_Inl: "statement run c = (Inl err, c') \<Longrightarrow> c' = c \<and> err = StorageFailure"
  by (auto simp: statement_def split: option.splits nat.splits prod.splits)




subsection \<open>What holds wherever the failure strikes\<close>


























section \<open>Every operation keeps the store invariants\<close>

lemma wf_map_set_existing:
  "wf_map idf next m \<Longrightarrow> map_get m k \<noteq> None \<Longrightarrow> idf v = k \<Longrightarrow> wf_map idf next (map_set k v m)"
proof (induction m)
  case Nil
  then show ?case by (simp add: map_get_def)
next
  case (Cons e m)
  show ?case
  proof (cases "fst e = k")
    case True
    then show ?thesis
      using Cons.prems by (simp add: wf_map_def)
  next
    case False
    then have "map_get m k \<noteq> None"
      using Cons.prems(2) by (cases e) (simp add: map_get_def)
    moreover have "wf_map idf next m"
      using Cons.prems(1) by (simp add: wf_map_def)
    ultimately have "wf_map idf next (map_set k v m)"
      using Cons.IH Cons.prems(3) by blast
    moreover have "fst ` set (map_set k v m) = fst ` set m"
      using \<open>map_get m k \<noteq> None\<close>
      by (metis map_set_keys_present map_get_def map_of_eq_None_iff set_map)
    ultimately show ?thesis
      using Cons.prems(1) False by (simp add: wf_map_def)
  qed
qed

lemma wf_map_delete: "wf_map idf next m \<Longrightarrow> wf_map idf next (map_delete k m)"
  by (simp add: map_delete_def wf_map_filter)

lemma wf_map_next: "wf_map idf next m \<Longrightarrow> wf_map idf (next + 1) m"
  by (auto simp: wf_map_def list_all_iff)

lemma mem_create_wf:
  assumes "mem_wf s"
  shows "mem_wf (snd (mem_createUser now iu s))" "mem_wf (snd (mem_createProject now ip s))"
    "mem_wf (snd (mem_createExperiment now ie s))" "mem_wf (snd (mem_createNote now inn s))"
    "mem_wf (snd (mem_createAttachment now ia s))"
  using assms wf_map_fresh[of user_id "userId s" "users s"]
    wf_map_fresh[of project_id "projectId s" "projects s"]
    wf_map_fresh[of experiment_id "experimentId s" "experiments s"]
    wf_map_fresh[of note_id "noteId s" "notes s"]
    wf_map_fresh[of attachment_id "attachmentId s" "attachments s"]
  by (simp_all add: mem_createUser_def mem_createProject_def mem_createExperiment_def
      mem_createNote_def mem_createAttachment_def mem_wf_def Let_def map_set_fresh wf_map_append)

lemma mem_update_wf:
  assumes "mem_wf s"
  shows "mem_wf (snd (mem_updateProject now i up s))"
    "mem_wf (snd (mem_updateExperiment now i ue s))" "mem_wf (snd (mem_updateNote now i un s))"
proof -
  have "wf_map project_id (projectId s) (map_set i (merge_project p up now) (projects s))"
    if "map_get (projects s) i = Some p" for p
  proof -
    have "(i, p) \<in> set (projects s)"
      using that by (simp add: map_get_def map_of_SomeD)
    then have "project_id p = i"
      using assms by (auto simp: mem_wf_def wf_map_def list_all_iff)
    then show ?thesis
      using assms that by (intro wf_map_set_existing) (simp_all add: mem_wf_def merge_project_id)
  qed
  then show "mem_wf (snd (mem_updateProject now i up s))"
    using assms by (simp add: mem_updateProject_def mem_wf_def Let_def split: option.splits)
  have "wf_map experiment_id (experimentId s)
          (map_set i (merge_experiment e ue now) (experiments s))"
    if "map_get (experiments s) i = Some e" for e
  proof -
    have "(i, e) \<in> set (experiments s)"
      using that by (simp add: map_get_def map_of_SomeD)
    then have "experiment_id e = i"
      using assms by (auto simp: mem_wf_def wf_map_def list_all_iff)
    then show ?thesis
      using assms that
      by (intro wf_map_set_existing) (simp_all add: mem_wf_def merge_experiment_id)
  qed
  then show "mem_wf (snd (mem_updateExperiment now i ue s))"
    using assms by (simp add: mem_updateExperiment_def mem_wf_def Let_def split: option.splits)
  have "wf_map note_id (noteId s) (map_set i (merge_note n un now) (notes s))"
    if "map_get (notes s) i = Some n" for n
  proof -
    have "(i, n) \<in> set (notes s)"
      using that by (simp add: map_get_def map_of_SomeD)
    then have "note_id n = i"
      using assms by (auto simp: mem_wf_def wf_map_def list_all_iff)
    then show ?thesis
      using assms that by (intro wf_map_set_existing) (simp_all add: mem_wf_def merge_note_id)
  qed
  then show "mem_wf (snd (mem_updateNote now i un s))"
    using assms by (simp add: mem_updateNote_def mem_wf_def Let_def split: option.splits)
qed

lemma mem_delete_wf:
  assumes "mem_wf s"
  shows "mem_wf (snd (mem_deleteAttachment i s))" "mem_wf (snd (mem_deleteNote i s))"
    "mem_wf (snd (mem_deleteExperiment i s))" "mem_wf (snd (mem_deleteProject i s))"
    "mem_wf (snd (mem_removeCollaborator pid uid s))"
proof -
  have wa: "wf_map attachment_id (attachmentId s) (attachments s)"
    and wn: "wf_map note_id (noteId s) (notes s)"
    using assms by (simp_all add: mem_wf_def)
  show "mem_wf (snd (mem_deleteAttachment i s))"
    using assms by (simp add: mem_deleteAttachment_def mem_wf_def wf_map_delete)
  show "mem_wf (snd (mem_deleteNote i s))"
    using assms by (simp add: mem_deleteNote_eq mem_wf_def wf_map_delete wf_map_filter)
  show "mem_wf (snd (mem_deleteExperiment i s))"
    using assms
    by (simp add: mem_deleteExperiment_wf_eq[OF wa wn] mem_wf_def wf_map_delete wf_map_filter)
  show "mem_wf (snd (mem_deleteProject i s))"
    using assms
    by (simp add: mem_deleteProject_wf_eq[OF assms] mem_wf_def wf_map_delete wf_map_filter)
  show "mem_wf (snd (mem_removeCollaborator pid uid s))"
    using assms
    by (simp add: mem_removeCollaborator_def mem_wf_def wf_map_delete split: option.splits)
qed

lemma wf_table_filter: "wf_table idf next rows \<Longrightarrow> wf_table idf next (filter P rows)"
  by (auto simp: wf_table_def list_all_iff distinct_map_filter)

lemma wf_table_update:
  "(\<And>r. idf (f r) = idf r) \<Longrightarrow> wf_table idf next rows \<Longrightarrow>
   wf_table idf next (sql_update cond f rows)"
proof -
  assume same: "\<And>r. idf (f r) = idf r" and wf: "wf_table idf next rows"
  have "map idf (sql_update cond f rows) = map idf rows"
    by (induction rows) (simp_all add: sql_update_def same)
  moreover have "list_all (\<lambda>r. idf r < next) (sql_update cond f rows)"
    using wf by (auto simp: wf_table_def list_all_iff sql_update_def same)
  ultimately show ?thesis
    using wf by (simp add: wf_table_def)
qed

lemma wf_table_next: "wf_table idf next rows \<Longrightarrow> wf_table idf (next + 1) rows"
  by (auto simp: wf_table_def list_all_iff)

lemma db_create_wf:
  assumes "db_wf d"
  shows "db_wf (snd (db_createUser now iu d))"
    "db_wf (snd (db_createProject now ip d))" "db_wf (snd (db_createExperiment now ie d))"
    "db_wf (snd (db_createNote now inn d))" "db_wf (snd (db_createAttachment now ia d))"
  using assms wf_table_fresh[of user_id "seq_users d" "tbl_users d"]
    wf_table_fresh[of project_id "seq_projects d" "tbl_projects d"]
    wf_table_fresh[of experiment_id "seq_experiments d" "tbl_experiments d"]
    wf_table_fresh[of note_id "seq_notes d" "tbl_notes d"]
    wf_table_fresh[of attachment_id "seq_attachments d" "tbl_attachments d"]
  by (simp_all add: db_createUser_def db_createProject_def db_createExperiment_def
      db_createNote_def db_createAttachment_def db_wf_def Let_def wf_table_append
      wf_table_next)

lemma db_update_wf:
  assumes "db_wf d"
  shows "db_wf (snd (db_updateProject now i up d))"
    "db_wf (snd (db_updateExperiment now i ue d))" "db_wf (snd (db_updateNote now i un d))"
  using assms
  by (simp_all add: db_updateProject_def db_updateExperiment_def db_updateNote_def db_wf_def
      Let_def wf_table_update merge_project_id merge_experiment_id merge_note_id)

lemma db_delete_wf:
  assumes "db_wf d"
  shows "db_wf (snd (db_deleteAttachment i d))" "db_wf (snd (db_deleteNote i d))"
    "db_wf (snd (db_deleteExperiment i d))" "db_wf (snd (db_deleteProject i d))"
    "db_wf (snd (db_removeCollaborator pid uid d))"
  using assms
  by (simp_all add: db_deleteAttachment_def db_deleteNote_def db_deleteExperiment_eq
      db_deleteProject_eq db_removeCollaborator_def db_wf_def Let_def sql_delete_def
      wf_table_filter)

end
